theory Spec2Isabelle
  imports Main
begin

section \<open>JavaScript values\<close>

text \<open>
  The webhook handler (\<^verbatim>\<open>index.js\<close>) and the bulk sender (\<^verbatim>\<open>elasticsearch.js\<close>) work on
  values produced by \<^verbatim>\<open>JSON.parse\<close> and on a few object literals of their own. Such a value
  is \<open>undefined\<close>, \<open>null\<close>, a boolean, a number, a string, an array or a plain object whose
  properties are listed in enumeration order.

  \<^item> A \<open>char\<close> stands for one code unit of a JavaScript string; the model covers the code
    units \<open>0x00\<close> to \<open>0xFF\<close>.
  \<^item> \<open>Num n\<close> stands for the integer-valued number \<open>n\<close> in the range that JavaScript prints in
    plain decimal (all that \<^verbatim>\<open>Date.now()\<close> and the literals \<open>0\<close> and \<open>1\<close> of the program produce).
  \<^item> In \<open>Obj ps\<close> no key occurs twice.

  Writing to the console has no part in what the program returns or sends and is left out.
\<close>

datatype jsval =
    Undefined
  | Null
  | Bool bool
  | Num int
  | Str string
  | Arr "jsval list"
  | Obj "(string \<times> jsval) list"

text \<open>Exceptions the program can raise and never catches.\<close>

datatype exn = TypeError | SyntaxError

text \<open>An \<^verbatim>\<open>Error\<close> object, as built by \<^verbatim>\<open>new Error(msg)\<close> or handed over by the HTTP client.\<close>

datatype js_Error = Error (message: string)

text \<open>The own data property \<open>k\<close> of a value, if it has one.\<close>

fun own :: "jsval \<Rightarrow> string \<Rightarrow> jsval option" where
  "own (Obj ps) k = map_of ps k"
| "own v k = None"

text \<open>
  The value of the expression \<^verbatim>\<open>v.k\<close> once \<open>v\<close> is known to be neither \<open>null\<close> nor
  \<open>undefined\<close>: the own property, else \<open>undefined\<close>. This is right for the property names the
  program reads (\<^verbatim>\<open>payload\<close>, \<^verbatim>\<open>ep\<close>, \<^verbatim>\<open>path\<close>, \<^verbatim>\<open>original-ep\<close>, \<^verbatim>\<open>ept\<close>, \<^verbatim>\<open>resources\<close>,
  \<^verbatim>\<open>notifications\<close>, \<^verbatim>\<open>registrations\<close>, \<^verbatim>\<open>reg-updates\<close>, \<^verbatim>\<open>registrations-expired\<close>): none of
  them is defined on a prototype, is an array index or is \<^verbatim>\<open>length\<close>.
\<close>

definition field :: "jsval \<Rightarrow> string \<Rightarrow> jsval" where
  "field v k = (case own v k of None \<Rightarrow> Undefined | Some x \<Rightarrow> x)"

text \<open>Property read \<^verbatim>\<open>v.k\<close>: a \<^verbatim>\<open>TypeError\<close> on \<open>null\<close> and \<open>undefined\<close>.\<close>

definition get :: "jsval \<Rightarrow> string \<Rightarrow> exn + jsval" where
  "get v k =
     (case v of
        Undefined \<Rightarrow> Inl TypeError
      | Null \<Rightarrow> Inl TypeError
      | _ \<Rightarrow> Inr (field v k))"

text \<open>
  The method call \<^verbatim>\<open>v.hasOwnProperty(k)\<close>. The method is looked up on \<open>v\<close> first: an own
  property named \<^verbatim>\<open>hasOwnProperty\<close> hides the one of \<^verbatim>\<open>Object.prototype\<close>, and since a
  parsed JSON value is never a function, calling it raises a \<^verbatim>\<open>TypeError\<close>. On \<open>null\<close> and
  \<open>undefined\<close> the lookup itself raises. Otherwise the answer is whether \<open>k\<close> is an own
  property; as for \<open>field\<close>, the names the program asks for are neither array indices nor
  \<^verbatim>\<open>length\<close>.
\<close>

definition hasOwnProperty :: "jsval \<Rightarrow> string \<Rightarrow> exn + bool" where
  "hasOwnProperty v k =
     (case v of
        Undefined \<Rightarrow> Inl TypeError
      | Null \<Rightarrow> Inl TypeError
      | _ \<Rightarrow>
          (case own v ''hasOwnProperty'' of
             Some f \<Rightarrow> Inl TypeError
           | None \<Rightarrow> Inr (own v k \<noteq> None)))"

text \<open>
  The items visited by \<^verbatim>\<open>for (const item of v)\<close>: the elements of an array, the characters
  of a string; any other parsed value is not iterable.
\<close>

definition for_of :: "jsval \<Rightarrow> exn + jsval list" where
  "for_of v =
     (case v of
        Arr xs \<Rightarrow> Inr xs
      | Str s \<Rightarrow> Inr (map (\<lambda>c. Str [c]) s)
      | _ \<Rightarrow> Inl TypeError)"

section \<open>\<^verbatim>\<open>JSON.stringify\<close>\<close>

definition hexdigit :: "nat \<Rightarrow> char" where
  "hexdigit d = ''0123456789abcdef'' ! d"

text \<open>One code unit inside a quoted JSON string (\<^verbatim>\<open>QuoteJSONString\<close> of ECMA-262).\<close>

definition escape :: "char \<Rightarrow> string" where
  \<open>escape c =
     (if c = CHR 0x08 then [CHR 0x5C, CHR ''b'']
      else if c = CHR 0x09 then [CHR 0x5C, CHR ''t'']
      else if c = CHR 0x0A then [CHR 0x5C, CHR ''n'']
      else if c = CHR 0x0C then [CHR 0x5C, CHR ''f'']
      else if c = CHR 0x0D then [CHR 0x5C, CHR ''r'']
      else if c = CHR ''"'' then [CHR 0x5C, CHR ''"'']
      else if c = CHR 0x5C then [CHR 0x5C, CHR 0x5C]
      else if of_char c < (0x20 :: nat)
        then [CHR 0x5C, CHR ''u'', CHR ''0'', CHR ''0'',
              hexdigit (of_char c div 16), hexdigit (of_char c mod 16)]
      else [c])\<close>

definition QuoteJSONString :: "string \<Rightarrow> string" where
  \<open>QuoteJSONString s = ''"'' @ concat (map escape s) @ ''"''\<close>

fun digits :: "nat \<Rightarrow> string" where
  "digits n =
     (if n < 10 then [''0123456789'' ! n]
      else digits (n div 10) @ [''0123456789'' ! (n mod 10)])"

declare digits.simps [simp del]

definition NumberToString :: "int \<Rightarrow> string" where
  "NumberToString i = (if i < 0 then ''-'' @ digits (nat (- i)) else digits (nat i))"

fun join :: "string \<Rightarrow> string list \<Rightarrow> string" where
  "join sep [] = []"
| "join sep [x] = x"
| "join sep (x # y # ys) = x @ sep @ join sep (y # ys)"

text \<open>
  \<^verbatim>\<open>JSON.stringify(v)\<close> with no replacer and no indentation; \<open>None\<close> is the result
  \<open>undefined\<close>. A property whose value serializes to \<open>undefined\<close> is left out of an object, and
  such an element of an array is written \<^verbatim>\<open>null\<close>.
\<close>

fun JSON_stringify :: "jsval \<Rightarrow> string option"
  and SerializeJSONArray :: "jsval list \<Rightarrow> string list"
  and SerializeJSONObject :: "(string \<times> jsval) list \<Rightarrow> string list"
where
  "JSON_stringify Undefined = None"
| "JSON_stringify Null = Some ''null''"
| "JSON_stringify (Bool b) = Some (if b then ''true'' else ''false'')"
| "JSON_stringify (Num i) = Some (NumberToString i)"
| "JSON_stringify (Str s) = Some (QuoteJSONString s)"
| "JSON_stringify (Arr xs) = Some (''['' @ join '','' (SerializeJSONArray xs) @ '']'')"
| "JSON_stringify (Obj ps) = Some (''{'' @ join '','' (SerializeJSONObject ps) @ ''}'')"
| "SerializeJSONArray [] = []"
| "SerializeJSONArray (x # xs) =
     (case JSON_stringify x of None \<Rightarrow> ''null'' | Some s \<Rightarrow> s) # SerializeJSONArray xs"
| "SerializeJSONObject [] = []"
| "SerializeJSONObject ((k, v) # ps) =
     (case JSON_stringify v of
        None \<Rightarrow> SerializeJSONObject ps
      | Some s \<Rightarrow> (QuoteJSONString k @ '':'' @ s) # SerializeJSONObject ps)"

section \<open>\<^verbatim>\<open>String.prototype.trim\<close>\<close>

definition WhiteSpace :: "char \<Rightarrow> bool" where
  "WhiteSpace c \<longleftrightarrow>
     c \<in> {CHR 0x09, CHR 0x0A, CHR 0x0B, CHR 0x0C, CHR 0x0D, CHR 0x20, CHR 0xA0}"

definition trim :: "string \<Rightarrow> string" where
  "trim s = rev (dropWhile WhiteSpace (rev (dropWhile WhiteSpace s)))"

section \<open>\<^verbatim>\<open>Buffer.from(s, 'base64').toString('ascii')\<close>\<close>

text \<open>
  A buffer is a list of bytes. Decoding follows the platform's lenient base64 reader: it
  stops at the first \<^verbatim>\<open>=\<close>, skips every character outside the alphabet (the URL-safe
  \<^verbatim>\<open>-\<close> and \<^verbatim>\<open>_\<close> count as \<^verbatim>\<open>+\<close> and \<^verbatim>\<open>/\<close>), reads six bits per character and
  writes every complete group of eight bits.
\<close>

type_synonym buffer = "char list"

definition base64_alphabet :: string where
  "base64_alphabet = ''ABCDEFGHIJKLMNOPQRSTUVWXYZabcdefghijklmnopqrstuvwxyz0123456789+/''"

fun index_of :: "'a \<Rightarrow> 'a list \<Rightarrow> nat option" where
  "index_of c [] = None"
| "index_of c (x # xs) =
     (if c = x then Some 0 else (case index_of c xs of None \<Rightarrow> None | Some i \<Rightarrow> Some (Suc i)))"

definition unbase64 :: "char \<Rightarrow> nat option" where
  "unbase64 c =
     (if c = CHR ''-'' then Some 62
      else if c = CHR ''_'' then Some 63
      else index_of c base64_alphabet)"

definition sextet :: "nat \<Rightarrow> bool list" where
  "sextet n =
     [odd (n div 32), odd (n div 16), odd (n div 8), odd (n div 4), odd (n div 2), odd n]"

fun octets :: "bool list \<Rightarrow> buffer" where
  "octets (b7 # b6 # b5 # b4 # b3 # b2 # b1 # b0 # bs) =
     Char b0 b1 b2 b3 b4 b5 b6 b7 # octets bs"
| "octets bs = []"

definition base64_decode :: "string \<Rightarrow> buffer" where
  "base64_decode s =
     octets (concat (map sextet
       (List.map_filter unbase64 (takeWhile (\<lambda>c. c \<noteq> CHR ''='') s))))"

text \<open>\<^verbatim>\<open>buf.toString('ascii')\<close> clears the high bit of every byte.\<close>

fun ascii :: "char \<Rightarrow> char" where
  "ascii (Char b0 b1 b2 b3 b4 b5 b6 b7) = Char b0 b1 b2 b3 b4 b5 b6 False"

definition toString_ascii :: "buffer \<Rightarrow> string" where
  "toString_ascii buf = map ascii buf"

section \<open>The platform\<close>

text \<open>
  What \<^verbatim>\<open>sendRequest\<close> is called with: the object \<^verbatim>\<open>{ httpMethod, requestPath, payload }\<close>.
  Signing adds headers to the request and changes neither its method, its path nor its body;
  it is not modelled.
\<close>

record params =
  req_httpMethod :: string
  req_requestPath :: string
  req_payload :: string

text \<open>The response stream of the search engine: status line, headers and data chunks.\<close>

record es_response =
  es_statusCode :: nat
  es_statusMessage :: string
  es_headers :: "(string \<times> string) list"
  es_chunks :: "string list"

text \<open>
  \<^verbatim>\<open>httpClient.handleRequest\<close> ends in one of its two callbacks: the response callback or
  the error callback.
\<close>

datatype http_result = Response es_response | TransportError js_Error

text \<open>
  The functions of the platform that the program calls and that the model takes as given:
  \<^item> \<^verbatim>\<open>JSON.parse\<close>, \<open>None\<close> when it raises a \<^verbatim>\<open>SyntaxError\<close>;
  \<^item> \<^verbatim>\<open>Date.now()\<close>, as the value returned by the \<open>n\<close>-th call of one invocation;
  \<^item> \<^verbatim>\<open>Buffer.from\<close> on an array or an object, \<open>None\<close> when it raises a \<^verbatim>\<open>TypeError\<close>;
  \<^item> the HTTP client together with the search engine behind it.
\<close>

record world =
  JSON_parse :: "string \<Rightarrow> jsval option"
  Date_now :: "nat \<Rightarrow> int"
  Buffer_from_object :: "jsval \<Rightarrow> buffer option"
  handleRequest :: "params \<Rightarrow> http_result"

text \<open>\<^verbatim>\<open>Buffer.from(v, 'base64')\<close>: a string is decoded, a primitive that is no string raises.\<close>

definition Buffer_from :: "world \<Rightarrow> jsval \<Rightarrow> exn + buffer" where
  "Buffer_from w v =
     (case v of
        Str s \<Rightarrow> Inr (base64_decode s)
      | Arr xs \<Rightarrow>
          (case Buffer_from_object w v of None \<Rightarrow> Inl TypeError | Some buf \<Rightarrow> Inr buf)
      | Obj ps \<Rightarrow>
          (case Buffer_from_object w v of None \<Rightarrow> Inl TypeError | Some buf \<Rightarrow> Inr buf)
      | _ \<Rightarrow> Inl TypeError)"

section \<open>\<^verbatim>\<open>elasticsearch.js\<close>\<close>

subsection \<open>\<^verbatim>\<open>sendRequest\<close>\<close>

text \<open>
  The object the promise is resolved with (lines 80 to 88); \<open>data_body\<close> is set only for a
  non-empty body.
\<close>

record data =
  data_statusCode :: nat
  data_statusMessage :: string
  data_headers :: "(string \<times> string) list"
  data_body :: "jsval option"

text \<open>
  How the promise of \<^verbatim>\<open>sendRequest\<close> ends. An exception raised inside the \<^verbatim>\<open>end\<close> listener
  is raised outside the promise: the promise stays pending and the exception is uncaught.
\<close>

datatype promise = Resolved data | Rejected js_Error | Uncaught exn

definition sendRequest :: "world \<Rightarrow> params \<Rightarrow> promise" where
  "sendRequest w p =
     (case handleRequest w p of
        Response response \<Rightarrow>
          (let body = concat (es_chunks response) in
           if body \<noteq> [] then
             (case JSON_parse w body of
                None \<Rightarrow> Uncaught SyntaxError
              | Some parsed \<Rightarrow>
                  Resolved \<lparr>data_statusCode = es_statusCode response,
                            data_statusMessage = es_statusMessage response,
                            data_headers = es_headers response,
                            data_body = Some parsed\<rparr>)
           else
             Resolved \<lparr>data_statusCode = es_statusCode response,
                       data_statusMessage = es_statusMessage response,
                       data_headers = es_headers response,
                       data_body = None\<rparr>)
      | TransportError err \<Rightarrow> Rejected err)"

subsection \<open>What one call leaves behind\<close>

text \<open>
  The requests handed to \<^verbatim>\<open>sendRequest\<close>, the results of the calls of the completion
  function (none when it is never called), and the exception that escaped, if any.
\<close>

record 'a effects =
  requests :: "params list"
  completions :: "'a list"
  uncaught :: "exn option"

definition throws :: "exn \<Rightarrow> 'a effects" where
  "throws e = \<lparr>requests = [], completions = [], uncaught = Some e\<rparr>"

text \<open>
  The common tail of the three senders: one \<^verbatim>\<open>POST /_bulk\<close> with the bulk text, then
  \<^verbatim>\<open>done(null, 'success')\<close> when the promise resolves and \<^verbatim>\<open>done(reject)\<close> when it rejects.
\<close>

definition post_bulk :: "world \<Rightarrow> string \<Rightarrow> (js_Error option \<Rightarrow> jsval \<Rightarrow> 'a) \<Rightarrow> 'a effects" where
  "post_bulk w bulk done =
     (let params = \<lparr>req_httpMethod = ''POST'', req_requestPath = ''/_bulk'', req_payload = bulk\<rparr>
      in case sendRequest w params of
           Resolved resolve \<Rightarrow>
             \<lparr>requests = [params], completions = [done None (Str ''success'')], uncaught = None\<rparr>
         | Rejected reject \<Rightarrow>
             \<lparr>requests = [params], completions = [done (Some reject) Undefined], uncaught = None\<rparr>
         | Uncaught e \<Rightarrow>
             \<lparr>requests = [params], completions = [], uncaught = Some e\<rparr>)"

subsection \<open>\<^verbatim>\<open>sendNotifications\<close>\<close>

text \<open>
  The loop over the items (lines 110 to 130), with the text accumulated in \<^verbatim>\<open>bulk\<close> and the
  number \<open>n\<close> of calls of \<^verbatim>\<open>Date.now()\<close> made so far. The loops of the other two senders
  (lines 156 to 185 and 214 to 230) are modelled the same way.
\<close>

fun notifications_loop :: "world \<Rightarrow> jsval list \<Rightarrow> string \<Rightarrow> nat \<Rightarrow> exn + string" where
  \<open>notifications_loop w [] bulk n = Inr bulk\<close>
| \<open>notifications_loop w (item # items) bulk n =
     (case get item ''payload'' of
        Inl e \<Rightarrow> Inl e
      | Inr payload \<Rightarrow>
          (case Buffer_from w payload of
             Inl e \<Rightarrow> Inl e
           | Inr buf \<Rightarrow>
               (let value = toString_ascii buf;
                    record =
                      Obj [(''time'', Num (Date_now w n)),
                           (''endpoint'', field item ''ep''),
                           (''path'', field item ''path''),
                           (''value'', Str value)];
                    bulk = bulk @ ''{"index":{"_index":"notifications","_type":"_doc"}}'' @ [CHR 0x0A]
                in case JSON_stringify record of
                     None \<Rightarrow> Inl TypeError
                   | Some text \<Rightarrow>
                       notifications_loop w items (bulk @ trim text @ [CHR 0x0A]) (Suc n))))\<close>

definition notifications_bulk :: "world \<Rightarrow> jsval \<Rightarrow> exn + string" where
  "notifications_bulk w notifications =
     (case for_of notifications of
        Inl e \<Rightarrow> Inl e
      | Inr items \<Rightarrow> notifications_loop w items [] 0)"

definition sendNotifications ::
  "world \<Rightarrow> jsval \<Rightarrow> (js_Error option \<Rightarrow> jsval \<Rightarrow> 'a) \<Rightarrow> 'a effects" where
  "sendNotifications w notifications done =
     (case notifications_bulk w notifications of
        Inl e \<Rightarrow> throws e
      | Inr bulk \<Rightarrow> post_bulk w bulk done)"

subsection \<open>\<^verbatim>\<open>sendRegistrations\<close>\<close>

fun registrations_loop :: "world \<Rightarrow> jsval list \<Rightarrow> string \<Rightarrow> nat \<Rightarrow> exn + string" where
  \<open>registrations_loop w [] bulk n = Inr bulk\<close>
| \<open>registrations_loop w (item # items) bulk n =
     (case get item ''ep'' of
        Inl e \<Rightarrow> Inl e
      | Inr ep \<Rightarrow>
          (let record_device_info =
                 Obj [(''time'', Num (Date_now w n)),
                      (''endpoint'', ep),
                      (''original-ep'', field item ''original-ep''),
                      (''ept'', field item ''ept''),
                      (''resources'',
                         (case JSON_stringify (field item ''resources'') of
                            None \<Rightarrow> Undefined
                          | Some text \<Rightarrow> Str text))];
               bulk = bulk @ ''{"index":{"_index":"devices","_type":"_doc"}}'' @ [CHR 0x0A]
           in case JSON_stringify record_device_info of
                None \<Rightarrow> Inl TypeError
              | Some text_info \<Rightarrow>
                  (let bulk = bulk @ trim text_info @ [CHR 0x0A];
                       record_device_registration =
                         Obj [(''time'', Num (Date_now w (Suc n))),
                              (''endpoint'', field item ''ep''),
                              (''value'', Num 1)];
                       bulk = bulk @ ''{"index":{"_index":"registrations","_type":"_doc"}}'' @ [CHR 0x0A]
                   in case JSON_stringify record_device_registration of
                        None \<Rightarrow> Inl TypeError
                      | Some text_registration \<Rightarrow>
                          registrations_loop w items
                            (bulk @ trim text_registration @ [CHR 0x0A]) (Suc (Suc n)))))\<close>

definition registrations_bulk :: "world \<Rightarrow> jsval \<Rightarrow> exn + string" where
  "registrations_bulk w registrations =
     (case for_of registrations of
        Inl e \<Rightarrow> Inl e
      | Inr items \<Rightarrow> registrations_loop w items [] 0)"

definition sendRegistrations ::
  "world \<Rightarrow> jsval \<Rightarrow> (js_Error option \<Rightarrow> jsval \<Rightarrow> 'a) \<Rightarrow> 'a effects" where
  "sendRegistrations w registrations done =
     (case registrations_bulk w registrations of
        Inl e \<Rightarrow> throws e
      | Inr bulk \<Rightarrow> post_bulk w bulk done)"

subsection \<open>\<^verbatim>\<open>sendExpirations\<close>\<close>

fun expirations_loop :: "world \<Rightarrow> jsval list \<Rightarrow> string \<Rightarrow> nat \<Rightarrow> exn + string" where
  \<open>expirations_loop w [] bulk n = Inr bulk\<close>
| \<open>expirations_loop w (item # items) bulk n =
     (let record_device_deregistration =
            Obj [(''time'', Num (Date_now w n)),
                 (''endpoint'', item),
                 (''value'', Num 0)];
          bulk = bulk @ ''{"index":{"_index":"registrations","_type":"_doc"}}'' @ [CHR 0x0A]
      in case JSON_stringify record_device_deregistration of
           None \<Rightarrow> Inl TypeError
         | Some text \<Rightarrow> expirations_loop w items (bulk @ trim text @ [CHR 0x0A]) (Suc n))\<close>

definition expirations_bulk :: "world \<Rightarrow> jsval \<Rightarrow> exn + string" where
  "expirations_bulk w expirations =
     (case for_of expirations of
        Inl e \<Rightarrow> Inl e
      | Inr items \<Rightarrow> expirations_loop w items [] 0)"

definition sendExpirations ::
  "world \<Rightarrow> jsval \<Rightarrow> (js_Error option \<Rightarrow> jsval \<Rightarrow> 'a) \<Rightarrow> 'a effects" where
  "sendExpirations w expirations done =
     (case expirations_bulk w expirations of
        Inl e \<Rightarrow> throws e
      | Inr bulk \<Rightarrow> post_bulk w bulk done)"

section \<open>\<^verbatim>\<open>index.js\<close>\<close>

text \<open>
  The chain of \<^verbatim>\<open>hasOwnProperty\<close> tests on the parsed body (lines 52 to 84): which sender
  is called, and with which argument; \<open>Acknowledge\<close> is the last branch, which calls no
  sender.
\<close>

datatype call =
    SendNotifications jsval
  | SendRegistrations jsval
  | SendExpirations jsval
  | Acknowledge

fun bind :: "exn + 'a \<Rightarrow> ('a \<Rightarrow> exn + 'b) \<Rightarrow> exn + 'b" where
  "bind (Inl e) f = Inl e"
| "bind (Inr x) f = f x"

definition classify :: "jsval \<Rightarrow> exn + call" where
  "classify body =
     bind (hasOwnProperty body ''notifications'') (\<lambda>has_notifications.
       if has_notifications then
         bind (get body ''notifications'') (\<lambda>v. Inr (SendNotifications v))
       else
         bind (hasOwnProperty body ''registrations'') (\<lambda>has_registrations.
         bind (if has_registrations then Inr True
               else hasOwnProperty body ''reg-updates'') (\<lambda>either.
           if either then
             bind (hasOwnProperty body ''registrations'') (\<lambda>has_registrations.
               if has_registrations then
                 bind (get body ''registrations'') (\<lambda>v. Inr (SendRegistrations v))
               else
                 bind (get body ''reg-updates'') (\<lambda>v. Inr (SendRegistrations v)))
           else
             bind (hasOwnProperty body ''registrations-expired'') (\<lambda>has_expired.
               if has_expired then
                 bind (get body ''registrations-expired'') (\<lambda>v. Inr (SendExpirations v))
               else Inr Acknowledge))))"

text \<open>
  The event of one invocation, as the HTTP front door delivers it: the method, a string,
  and, when the event has the property \<^verbatim>\<open>body\<close>, the request body as the text that
  \<^verbatim>\<open>JSON.parse\<close> reads.
\<close>

record event =
  httpMethod :: string
  body :: "string option"

text \<open>The object handed to the callback of the invocation, always with a \<open>null\<close> error.\<close>

record lambda_response =
  statusCode :: string
  response_body :: "string option"
  headers :: "(string \<times> string) list"

text \<open>
  The function \<^verbatim>\<open>done\<close> of the handler (lines 32 to 38); \<open>None\<close> is the error \<open>null\<close>, and a
  missing second argument is \<open>Undefined\<close>.
\<close>

definition done_cb :: "js_Error option \<Rightarrow> jsval \<Rightarrow> lambda_response" where
  "done_cb err res =
     \<lparr>statusCode = (case err of Some e \<Rightarrow> ''400'' | None \<Rightarrow> ''200''),
      response_body = (case err of Some e \<Rightarrow> Some (message e) | None \<Rightarrow> JSON_stringify res),
      headers = [(''Content-Type'', ''application/json'')]\<rparr>"

text \<open>The handler (lines 26 to 90), with the completions being the calls of \<^verbatim>\<open>callback\<close>.\<close>

definition handler :: "world \<Rightarrow> event \<Rightarrow> lambda_response effects" where
  \<open>handler w event =
     (if httpMethod event = ''PUT'' then
        (case body event of
           Some text \<Rightarrow>
             (case JSON_parse w text of
                None \<Rightarrow> throws SyntaxError
              | Some parsed \<Rightarrow>
                  (case classify parsed of
                     Inl e \<Rightarrow> throws e
                   | Inr (SendNotifications v) \<Rightarrow> sendNotifications w v done_cb
                   | Inr (SendRegistrations v) \<Rightarrow> sendRegistrations w v done_cb
                   | Inr (SendExpirations v) \<Rightarrow> sendExpirations w v done_cb
                   | Inr Acknowledge \<Rightarrow>
                       \<lparr>requests = [], completions = [done_cb None (Str ''success'')],
                        uncaught = None\<rparr>))
         | None \<Rightarrow> \<lparr>requests = [], completions = [], uncaught = None\<rparr>)
      else
        \<lparr>requests = [],
         completions =
           [done_cb (Some (Error (''Unsupported method "'' @ httpMethod event @ ''"''))) Undefined],
         uncaught = None\<rparr>)\<close>

section \<open>Lines of a bulk text\<close>

text \<open>
  The search engine reads a bulk body line by line, each line ending in a newline.
  \<open>lines\<close> cuts a text at every newline (a last piece without a newline counts as a line
  of its own), and \<open>terminated\<close> writes a list of lines back, each followed by a newline.
\<close>

fun lines_from :: "string \<Rightarrow> string \<Rightarrow> string list" where
  "lines_from cur [] = (if cur = [] then [] else [cur])"
| "lines_from cur (c # cs) =
     (if c = CHR 0x0A then cur # lines_from [] cs else lines_from (cur @ [c]) cs)"

definition lines :: "string \<Rightarrow> string list" where
  "lines s = lines_from [] s"

definition terminated :: "string list \<Rightarrow> string" where
  "terminated ls = concat (map (\<lambda>l. l @ [CHR 0x0A]) ls)"

section \<open>What one round of each loop appends\<close>

text \<open>The text of an object: \<^verbatim>\<open>JSON.stringify\<close> of \<open>Obj ps\<close>.\<close>

definition object_text :: "(string \<times> jsval) list \<Rightarrow> string" where
  "object_text ps = ''{'' @ join '','' (SerializeJSONObject ps) @ ''}''"

fun str_of :: "jsval \<Rightarrow> string" where
  "str_of (Str s) = s"
| "str_of v = []"

text \<open>
  The two lines of notification number \<open>i\<close>, the four lines of registration number \<open>i\<close> and
  the two lines of expiration number \<open>i\<close>, counted from \<open>0\<close>, for an item on which the round
  raises nothing.
\<close>

definition notification_lines :: "world \<Rightarrow> nat \<Rightarrow> jsval \<Rightarrow> string list" where
  \<open>notification_lines w i item =
     [''{"index":{"_index":"notifications","_type":"_doc"}}'',
      object_text
        [(''time'', Num (Date_now w i)),
         (''endpoint'', field item ''ep''),
         (''path'', field item ''path''),
         (''value'', Str (toString_ascii (base64_decode (str_of (field item ''payload'')))))]]\<close>

definition registration_lines :: "world \<Rightarrow> nat \<Rightarrow> jsval \<Rightarrow> string list" where
  \<open>registration_lines w i item =
     [''{"index":{"_index":"devices","_type":"_doc"}}'',
      object_text
        [(''time'', Num (Date_now w (2 * i))),
         (''endpoint'', field item ''ep''),
         (''original-ep'', field item ''original-ep''),
         (''ept'', field item ''ept''),
         (''resources'',
            (case JSON_stringify (field item ''resources'') of
               None \<Rightarrow> Undefined
             | Some text \<Rightarrow> Str text))],
      ''{"index":{"_index":"registrations","_type":"_doc"}}'',
      object_text
        [(''time'', Num (Date_now w (2 * i + 1))),
         (''endpoint'', field item ''ep''),
         (''value'', Num 1)]]\<close>

definition expiration_lines :: "world \<Rightarrow> nat \<Rightarrow> jsval \<Rightarrow> string list" where
  \<open>expiration_lines w i item =
     [''{"index":{"_index":"registrations","_type":"_doc"}}'',
      object_text
        [(''time'', Num (Date_now w i)),
         (''endpoint'', item),
         (''value'', Num 0)]]\<close>

text \<open>The lines of all items, each item with its number.\<close>

definition numbered :: "(nat \<Rightarrow> 'a \<Rightarrow> string list) \<Rightarrow> 'a list \<Rightarrow> string list" where
  "numbered f items = concat (map (\<lambda>(i, item). f i item) (enumerate 0 items))"

section \<open>A world for the examples\<close>

text \<open>
  \<open>sample_parse\<close> is \<^verbatim>\<open>JSON.parse\<close> on the texts listed; the examples use no other text
  except the malformed \<^verbatim>\<open><html>\<close>. In \<open>sample_world r\<close> the clock starts at
  \<open>1570000000000\<close> and advances by one per call, and every request ends in \<open>r\<close>.
\<close>

definition sample_parse :: "string \<Rightarrow> jsval option" where
  \<open>sample_parse text =
     (if text = ''{}'' then Some (Obj [])
      else if text = ''null'' then Some Null
      else if text = ''{"errors":false,"items":[]}''
        then Some (Obj [(''errors'', Bool False), (''items'', Arr [])])
      else if text = ''{"Message":"forbidden"}''
        then Some (Obj [(''Message'', Str ''forbidden'')])
      else if text = ''{"hasOwnProperty":1}''
        then Some (Obj [(''hasOwnProperty'', Num 1)])
      else if text = ''{"registrations":[{"ep":"node1"}],"reg-updates":[{"ep":"node2"}]}''
        then Some (Obj [(''registrations'', Arr [Obj [(''ep'', Str ''node1'')]]),
                        (''reg-updates'', Arr [Obj [(''ep'', Str ''node2'')]])])
      else if text = ''{"notifications":[],"registrations":[{"ep":"node1"}],"reg-updates":[]}''
        then Some (Obj [(''notifications'', Arr []),
                        (''registrations'', Arr [Obj [(''ep'', Str ''node1'')]]),
                        (''reg-updates'', Arr [])])
      else None)\<close>

definition sample_world :: "http_result \<Rightarrow> world" where
  "sample_world r =
     \<lparr>JSON_parse = sample_parse,
      Date_now = (\<lambda>n. 1570000000000 + int n),
      Buffer_from_object = (\<lambda>v. None),
      handleRequest = (\<lambda>p. r)\<rparr>"

definition ok_response :: http_result where
  \<open>ok_response =
     Response \<lparr>es_statusCode = 200, es_statusMessage = ''OK'', es_headers = [],
               es_chunks = [''{"errors":false,'', ''"items":[]}'']\<rparr>\<close>

definition bad_gateway :: http_result where
  \<open>bad_gateway =
     Response \<lparr>es_statusCode = 502, es_statusMessage = ''Bad Gateway'', es_headers = [],
               es_chunks = [''<html>'']\<rparr>\<close>

definition forbidden :: http_result where
  \<open>forbidden =
     Response \<lparr>es_statusCode = 403, es_statusMessage = ''Forbidden'', es_headers = [],
               es_chunks = [''{"Message":"forbidden"}'']\<rparr>\<close>

text \<open>Whether a value is \<open>null\<close> or \<open>undefined\<close>.\<close>

definition nullish :: "jsval \<Rightarrow> bool" where
  "nullish v \<longleftrightarrow> v = Null \<or> v = Undefined"

text \<open>The name of the function a classified body ends in.\<close>

fun callee :: "call \<Rightarrow> string" where
  "callee (SendNotifications v) = ''sendNotifications''"
| "callee (SendRegistrations v) = ''sendRegistrations''"
| "callee (SendExpirations v) = ''sendExpirations''"
| "callee Acknowledge = ''done''"

section \<open>Serialized text holds no newline\<close>

lemma hexdigit_no_newline: "d < 16 \<Longrightarrow> hexdigit d \<noteq> CHR 0x0A"
proof -
  assume "d < 16"
  then have "hexdigit d \<in> set ''0123456789abcdef''"
    unfolding hexdigit_def by (intro nth_mem) simp
  then show ?thesis by auto
qed

lemma escape_no_newline: "CHR 0x0A \<notin> set (escape c)"
proof -
  have "(of_char c :: nat) < 0x20 \<Longrightarrow> of_char c div 16 < (16::nat)" by simp
  moreover have "of_char c mod 16 < (16::nat)" by simp
  ultimately show ?thesis
    using hexdigit_no_newline [of "of_char c div 16"] hexdigit_no_newline [of "of_char c mod 16"]
    by (auto simp: escape_def)
qed

lemma QuoteJSONString_no_newline: "CHR 0x0A \<notin> set (QuoteJSONString s)"
  by (auto simp: QuoteJSONString_def escape_no_newline)

lemma digit_no_newline: "d < 10 \<Longrightarrow> ''0123456789'' ! d \<noteq> CHR 0x0A"
proof -
  assume "d < 10"
  then have "''0123456789'' ! d \<in> set ''0123456789''"
    by (intro nth_mem) simp
  then show ?thesis by auto
qed

lemma digits_no_newline: "CHR 0x0A \<notin> set (digits n)"
proof (induction n rule: digits.induct)
  case (1 n)
  show ?case
  proof (cases "n < 10")
    case True
    then show ?thesis using digit_no_newline [of n] by (subst digits.simps) simp
  next
    case False
    then show ?thesis
      using 1 digit_no_newline [of "n mod 10"] by (subst digits.simps) simp
  qed
qed

lemma NumberToString_no_newline: "CHR 0x0A \<notin> set (NumberToString i)"
  by (simp add: NumberToString_def digits_no_newline)

lemma join_no_newline:
  "CHR 0x0A \<notin> set sep \<Longrightarrow> \<forall>x \<in> set xs. CHR 0x0A \<notin> set x \<Longrightarrow> CHR 0x0A \<notin> set (join sep xs)"
  by (induction sep xs rule: join.induct) auto

lemma stringify_no_newline_aux:
  "(\<forall>s. JSON_stringify v = Some s \<longrightarrow> CHR 0x0A \<notin> set s)"
  "(\<forall>s \<in> set (SerializeJSONArray xs). CHR 0x0A \<notin> set s)"
  "(\<forall>s \<in> set (SerializeJSONObject ps). CHR 0x0A \<notin> set s)"
proof (induction v and xs and ps rule: JSON_stringify_SerializeJSONArray_SerializeJSONObject.induct)
  case (6 xs)
  then show ?case by (auto simp: join_no_newline)
next
  case (7 ps)
  then show ?case by (auto simp: join_no_newline)
next
  case (9 x xs)
  then show ?case by (auto split: option.splits)
next
  case (11 k v ps)
  then show ?case by (auto split: option.splits simp: QuoteJSONString_no_newline)
qed (auto simp: NumberToString_no_newline QuoteJSONString_no_newline)

lemma JSON_stringify_no_newline: "JSON_stringify v = Some s \<Longrightarrow> CHR 0x0A \<notin> set s"
  using stringify_no_newline_aux(1) by blast

lemma trim_braces: "trim (CHR ''{'' # xs @ ''}'') = CHR ''{'' # xs @ ''}''"
  by (simp add: trim_def WhiteSpace_def)

lemma lines_from_line:
  "CHR 0x0A \<notin> set l \<Longrightarrow> lines_from cur (l @ CHR 0x0A # rest) = (cur @ l) # lines_from [] rest"
  by (induction l arbitrary: cur) auto

lemma lines_terminated: "\<forall>l \<in> set ls. CHR 0x0A \<notin> set l \<Longrightarrow> lines (terminated ls) = ls"
  unfolding lines_def terminated_def
proof (induction ls)
  case Nil
  then show ?case by simp
next
  case (Cons l ls)
  then show ?case using lines_from_line [of l "[]"] by simp
qed

section \<open>The loops, item by item\<close>

lemma JSON_stringify_Obj: "JSON_stringify (Obj ps) = Some (object_text ps)"
  by (simp add: object_text_def)

lemma object_text_no_newline: "CHR 0x0A \<notin> set (object_text ps)"
  using JSON_stringify_no_newline [OF JSON_stringify_Obj] .

lemma trim_object_text: "trim (object_text ps) = object_text ps"
  using trim_braces [of "join '','' (SerializeJSONObject ps)"] by (simp add: object_text_def)

lemma get_field: "field item k = Str s \<Longrightarrow> get item k = Inr (Str s)"
  by (cases item) (auto simp: get_def field_def)

lemma get_not_nullish: "\<not> nullish item \<Longrightarrow> get item k = Inr (field item k)"
  by (cases item) (auto simp: get_def nullish_def)

lemma notifications_loop_eq:
  "\<forall>item \<in> set items. \<exists>payload. field item ''payload'' = Str payload \<Longrightarrow>
   notifications_loop w items bulk n =
     Inr (bulk @ terminated (concat (map (\<lambda>(i, item). notification_lines w i item)
                                        (enumerate n items))))"
proof (induction items arbitrary: bulk n)
  case Nil
  then show ?case by (simp add: terminated_def)
next
  case (Cons item items)
  from Cons.prems obtain payload where p: "field item ''payload'' = Str payload" by auto
  from Cons.prems have rest: "\<forall>item \<in> set items. \<exists>payload. field item ''payload'' = Str payload"
    by simp
  show ?case
    using Cons.IH [OF rest]
    by (simp add: p get_field [OF p] Buffer_from_def JSON_stringify_Obj trim_object_text
        terminated_def notification_lines_def Let_def del: JSON_stringify.simps)
qed

lemma registrations_loop_eq:
  "\<forall>item \<in> set items. \<not> nullish item \<Longrightarrow>
   registrations_loop w items bulk (2 * m) =
     Inr (bulk @ terminated (concat (map (\<lambda>(i, item). registration_lines w i item)
                                        (enumerate m items))))"
proof (induction items arbitrary: bulk m)
  case Nil
  then show ?case by (simp add: terminated_def)
next
  case (Cons item items)
  from Cons.prems have nn: "\<not> nullish item" and rest: "\<forall>item \<in> set items. \<not> nullish item"
    by simp_all
  have step: "Suc (Suc (2 * m)) = 2 * Suc m" by simp
  show ?case
    using Cons.IH [OF rest, of _ "Suc m"]
    by (simp add: get_not_nullish [OF nn] JSON_stringify_Obj trim_object_text
        terminated_def registration_lines_def Let_def del: JSON_stringify.simps)
qed

lemma expirations_loop_eq:
  "expirations_loop w items bulk n =
     Inr (bulk @ terminated (concat (map (\<lambda>(i, item). expiration_lines w i item)
                                        (enumerate n items))))"
proof (induction items arbitrary: bulk n)
  case Nil
  then show ?case by (simp add: terminated_def)
next
  case (Cons item items)
  show ?case
    using Cons.IH
    by (simp add: JSON_stringify_Obj trim_object_text
        terminated_def expiration_lines_def Let_def del: JSON_stringify.simps)
qed

section \<open>Lines and their numbers\<close>

lemma concat_chunks_length:
  "\<forall>x \<in> set xs. length (f x) = k \<Longrightarrow> length (concat (map f xs)) = k * length xs"
  by (induction xs) auto

lemma concat_chunks_nth:
  "\<forall>x \<in> set xs. length (f x) = k \<Longrightarrow> i < length xs \<Longrightarrow> j < k \<Longrightarrow>
   concat (map f xs) ! (k * i + j) = f (xs ! i) ! j"
proof (induction xs arbitrary: i)
  case Nil
  then show ?case by simp
next
  case (Cons x xs)
  show ?case
  proof (cases i)
    case 0
    with Cons.prems show ?thesis by (simp add: nth_append)
  next
    case (Suc i')
    with Cons.prems have "concat (map f xs) ! (k * i' + j) = f (xs ! i') ! j"
      by (intro Cons.IH) auto
    moreover have "k * i + j = length (f x) + (k * i' + j)"
      using Cons.prems Suc by simp
    ultimately show ?thesis using Suc by (simp add: nth_append del: mult_Suc_right)
  qed
qed

lemma numbered_length:
  assumes "\<forall>i item. length (f i item) = k"
  shows "length (numbered f items) = k * length items"
proof -
  have "\<forall>x \<in> set (enumerate 0 items). length ((\<lambda>(i, item). f i item) x) = k"
    using assms by (simp add: split_beta)
  then have "length (concat (map (\<lambda>(i, item). f i item) (enumerate 0 items))) =
      k * length (enumerate 0 items)"
    by (rule concat_chunks_length)
  then show ?thesis
    unfolding numbered_def by (simp only: length_enumerate)
qed

lemma numbered_nth:
  assumes "\<forall>i item. length (f i item) = k" and "i < length items" and "j < k"
  shows "numbered f items ! (k * i + j) = f i (items ! i) ! j"
proof -
  have "\<forall>x \<in> set (enumerate 0 items). length ((\<lambda>(i, item). f i item) x) = k"
    using assms(1) by (simp add: split_beta)
  then have "concat (map (\<lambda>(i, item). f i item) (enumerate 0 items)) ! (k * i + j) =
      (\<lambda>(i, item). f i item) (enumerate 0 items ! i) ! j"
    using assms(2,3) by (intro concat_chunks_nth) simp_all
  then show ?thesis
    unfolding numbered_def using assms(2) by (simp add: nth_enumerate_eq)
qed

lemma numbered_no_newline:
  "\<forall>i item. \<forall>l \<in> set (f i item). CHR 0x0A \<notin> set l \<Longrightarrow>
   \<forall>l \<in> set (numbered f items). CHR 0x0A \<notin> set l"
  unfolding numbered_def by auto

lemma notification_lines_no_newline: "\<forall>l \<in> set (notification_lines w i item). CHR 0x0A \<notin> set l"
  by (simp add: notification_lines_def object_text_no_newline)

lemma registration_lines_no_newline: "\<forall>l \<in> set (registration_lines w i item). CHR 0x0A \<notin> set l"
  by (simp add: registration_lines_def object_text_no_newline)

lemma expiration_lines_no_newline: "\<forall>l \<in> set (expiration_lines w i item). CHR 0x0A \<notin> set l"
  by (simp add: expiration_lines_def object_text_no_newline)

lemma notifications_bulk_eq:
  "\<forall>item \<in> set items. \<exists>payload. field item ''payload'' = Str payload \<Longrightarrow>
   notifications_bulk w (Arr items) = Inr (terminated (numbered (notification_lines w) items))"
  by (simp add: notifications_bulk_def for_of_def notifications_loop_eq numbered_def)

lemma registrations_bulk_eq:
  "\<forall>item \<in> set items. \<not> nullish item \<Longrightarrow>
   registrations_bulk w (Arr items) = Inr (terminated (numbered (registration_lines w) items))"
  using registrations_loop_eq [of items w "[]" 0]
  by (simp add: registrations_bulk_def for_of_def numbered_def)

lemma expirations_bulk_eq:
  "expirations_bulk w (Arr items) = Inr (terminated (numbered (expiration_lines w) items))"
  by (simp add: expirations_bulk_def for_of_def expirations_loop_eq numbered_def)

lemma lines_notifications:
  "lines (terminated (numbered (notification_lines w) items)) = numbered (notification_lines w) items"
  by (intro lines_terminated numbered_no_newline) (simp add: notification_lines_no_newline)

lemma lines_registrations:
  "lines (terminated (numbered (registration_lines w) items)) = numbered (registration_lines w) items"
  by (intro lines_terminated numbered_no_newline) (simp add: registration_lines_no_newline)

lemma lines_expirations:
  "lines (terminated (numbered (expiration_lines w) items)) = numbered (expiration_lines w) items"
  by (intro lines_terminated numbered_no_newline) (simp add: expiration_lines_no_newline)

lemma quote_keys:
  \<open>QuoteJSONString ''time'' = ''"time"''\<close>
  \<open>QuoteJSONString ''endpoint'' = ''"endpoint"''\<close>
  \<open>QuoteJSONString ''path'' = ''"path"''\<close>
  \<open>QuoteJSONString ''value'' = ''"value"''\<close>
  \<open>QuoteJSONString ''original-ep'' = ''"original-ep"''\<close>
  \<open>QuoteJSONString ''ept'' = ''"ept"''\<close>
  \<open>QuoteJSONString ''resources'' = ''"resources"''\<close>
  by (simp_all add: QuoteJSONString_def escape_def)

lemma digits_0: "digits 0 = ''0''"
  by (simp add: digits.simps)

lemma digits_1: "digits (Suc 0) = ''1''"
  by (simp add: digits.simps)

lemma notification_text:
  \<open>object_text [(''time'', Num t), (''endpoint'', Str ep), (''path'', Str path), (''value'', Str v)] =
     ''{"time":'' @ NumberToString t @ '',"endpoint":'' @ QuoteJSONString ep @
     '',"path":'' @ QuoteJSONString path @ '',"value":'' @ QuoteJSONString v @ ''}''\<close>
  by (simp add: object_text_def quote_keys)

lemma device_text:
  \<open>object_text [(''time'', Num t), (''endpoint'', Str ep), (''original-ep'', Str oep),
                 (''ept'', Str ept), (''resources'', Str r)] =
     ''{"time":'' @ NumberToString t @ '',"endpoint":'' @ QuoteJSONString ep @
     '',"original-ep":'' @ QuoteJSONString oep @ '',"ept":'' @ QuoteJSONString ept @
     '',"resources":'' @ QuoteJSONString r @ ''}''\<close>
  by (simp add: object_text_def quote_keys)

lemma registration_text:
  \<open>object_text [(''time'', Num t), (''endpoint'', Str ep), (''value'', Num 1)] =
     ''{"time":'' @ NumberToString t @ '',"endpoint":'' @ QuoteJSONString ep @ '',"value":1}''\<close>
  by (simp add: object_text_def quote_keys NumberToString_def digits_1)

lemma expiration_text:
  \<open>object_text [(''time'', Num t), (''endpoint'', Str ep), (''value'', Num 0)] =
     ''{"time":'' @ NumberToString t @ '',"endpoint":'' @ QuoteJSONString ep @ '',"value":0}''\<close>
  by (simp add: object_text_def quote_keys NumberToString_def digits_0)

section \<open>Bulk texts\<close>

lemma requests_post_bulk:
  "requests (post_bulk w bulk done) =
     [\<lparr>req_httpMethod = ''POST'', req_requestPath = ''/_bulk'', req_payload = bulk\<rparr>]"
  by (simp add: post_bulk_def Let_def split: promise.splits)

lemma JSON_stringify_None: "JSON_stringify v = None \<longleftrightarrow> v = Undefined"
  by (cases v) simp_all

lemma numeral_digits:
  "digits (numeral k) =
     (if numeral k < (10::nat) then [''0123456789'' ! numeral k]
      else digits (numeral k div 10) @ [''0123456789'' ! (numeral k mod 10)])"
  by (rule digits.simps)

text \<open>
  Claim C1. For a notifications array whose \<open>N\<close> items carry strings under \<^verbatim>\<open>ep\<close>,
  \<^verbatim>\<open>path\<close> and \<^verbatim>\<open>payload\<close>, \<^verbatim>\<open>sendNotifications\<close> posts a bulk text of exactly \<open>2N\<close>
  newline-terminated lines. Lines \<open>2i\<close> and \<open>2i + 1\<close> belong to item \<open>i\<close>: the action line for
  the index \<^verbatim>\<open>notifications\<close>, then the document with the time of the round, \<^verbatim>\<open>endpoint\<close>
  the item's \<^verbatim>\<open>ep\<close>, \<^verbatim>\<open>path\<close> the item's \<^verbatim>\<open>path\<close> and \<^verbatim>\<open>value\<close> the base64-decoded payload
  read as ASCII.
\<close>

theorem sendNotifications_bulk_payload:
  assumes valid: "\<forall>item \<in> set items. \<exists>ep path payload.
      field item ''ep'' = Str ep \<and> field item ''path'' = Str path \<and>
      field item ''payload'' = Str payload"
  shows \<open>\<exists>bulk.
      notifications_bulk w (Arr items) = Inr bulk \<and>
      requests (sendNotifications w (Arr items) done) =
        [\<lparr>req_httpMethod = ''POST'', req_requestPath = ''/_bulk'', req_payload = bulk\<rparr>] \<and>
      bulk = terminated (lines bulk) \<and>
      length (lines bulk) = 2 * length items \<and>
      (\<forall>i < length items. \<forall>ep path payload.
         field (items ! i) ''ep'' = Str ep \<and> field (items ! i) ''path'' = Str path \<and>
         field (items ! i) ''payload'' = Str payload \<longrightarrow>
           lines bulk ! (2 * i) = ''{"index":{"_index":"notifications","_type":"_doc"}}'' \<and>
           lines bulk ! (2 * i + 1) =
             ''{"time":'' @ NumberToString (Date_now w i) @
             '',"endpoint":'' @ QuoteJSONString ep @
             '',"path":'' @ QuoteJSONString path @
             '',"value":'' @ QuoteJSONString (toString_ascii (base64_decode payload)) @ ''}'')\<close>
proof -
  let ?L = "numbered (notification_lines w) items"
  from valid have payloads: "\<forall>item \<in> set items. \<exists>payload. field item ''payload'' = Str payload"
    by blast
  have two: "\<forall>i item. length (notification_lines w i item) = 2"
    by (simp add: notification_lines_def)
  have bulk: "notifications_bulk w (Arr items) = Inr (terminated ?L)"
    using payloads by (rule notifications_bulk_eq)
  have lines: "lines (terminated ?L) = ?L"
    by (rule lines_notifications)
  have sent: "requests (sendNotifications w (Arr items) done) =
      [\<lparr>req_httpMethod = ''POST'', req_requestPath = ''/_bulk'', req_payload = terminated ?L\<rparr>]"
    by (simp add: sendNotifications_def bulk requests_post_bulk)
  have len: "length ?L = 2 * length items"
    using two by (rule numbered_length)
  have each: \<open>?L ! (2 * i) = ''{"index":{"_index":"notifications","_type":"_doc"}}'' \<and>
      ?L ! (2 * i + 1) =
        ''{"time":'' @ NumberToString (Date_now w i) @
        '',"endpoint":'' @ QuoteJSONString ep @
        '',"path":'' @ QuoteJSONString path @
        '',"value":'' @ QuoteJSONString (toString_ascii (base64_decode payload)) @ ''}''\<close>
    if "i < length items" and "field (items ! i) ''ep'' = Str ep"
      and "field (items ! i) ''path'' = Str path" and "field (items ! i) ''payload'' = Str payload"
    for i ep path payload
  proof -
    have "?L ! (2 * i + 0) = notification_lines w i (items ! i) ! 0"
      using two that(1) by (intro numbered_nth) simp_all
    moreover have "?L ! (2 * i + 1) = notification_lines w i (items ! i) ! 1"
      using two that(1) by (intro numbered_nth) simp_all
    ultimately show ?thesis
      using that(2-4) by (simp add: notification_lines_def notification_text)
  qed
  show ?thesis
    using bulk sent lines len each by (intro exI [of _ "terminated ?L"]) simp
qed

theorem sendNotifications_bulk_payload_witness:
  \<open>\<exists>bulk.
     notifications_bulk (sample_world ok_response)
       (Arr [Obj [(''ep'', Str ''node1''), (''path'', Str ''/3/0/1''),
                  (''payload'', Str ''SGVsbG8='')]]) = Inr bulk \<and>
     lines bulk =
       [''{"index":{"_index":"notifications","_type":"_doc"}}'',
        ''{"time":1570000000000,"endpoint":"node1","path":"/3/0/1","value":"Hello"}'']\<close>
proof -
  let ?item = "Obj [(''ep'', Str ''node1''), (''path'', Str ''/3/0/1''), (''payload'', Str ''SGVsbG8='')]"
  let ?w = "sample_world ok_response"
  have valid: "\<forall>item \<in> set [?item]. \<exists>ep path payload.
      field item ''ep'' = Str ep \<and> field item ''path'' = Str path \<and>
      field item ''payload'' = Str payload"
    by (simp add: field_def)
  from sendNotifications_bulk_payload [OF valid, where w = ?w]
  obtain bulk where bulk: "notifications_bulk ?w (Arr [?item]) = Inr bulk"
    and len: "length (lines bulk) = 2 * length [?item]"
    and each: \<open>\<forall>i < length [?item]. \<forall>ep path payload.
         field ([?item] ! i) ''ep'' = Str ep \<and> field ([?item] ! i) ''path'' = Str path \<and>
         field ([?item] ! i) ''payload'' = Str payload \<longrightarrow>
           lines bulk ! (2 * i) = ''{"index":{"_index":"notifications","_type":"_doc"}}'' \<and>
           lines bulk ! (2 * i + 1) =
             ''{"time":'' @ NumberToString (Date_now ?w i) @
             '',"endpoint":'' @ QuoteJSONString ep @
             '',"path":'' @ QuoteJSONString path @
             '',"value":'' @ QuoteJSONString (toString_ascii (base64_decode payload)) @ ''}''\<close>
    by blast
  from each [rule_format, of 0 "''node1''" "''/3/0/1''" "''SGVsbG8=''"]
  have first: \<open>lines bulk ! 0 = ''{"index":{"_index":"notifications","_type":"_doc"}}''\<close>
    and second: \<open>lines bulk ! 1 =
      ''{"time":1570000000000,"endpoint":"node1","path":"/3/0/1","value":"Hello"}''\<close>
    by (simp_all add: field_def sample_world_def NumberToString_def numeral_digits digits_0 digits_1
        QuoteJSONString_def escape_def toString_ascii_def base64_decode_def unbase64_def
        base64_alphabet_def sextet_def List.map_filter_def)
  from len have "length (lines bulk) = 2" by simp
  then obtain a b where ab: "lines bulk = [a, b]"
    by (metis (no_types) One_nat_def Suc_1 length_0_conv length_Suc_conv)
  with first second have \<open>lines bulk =
      [''{"index":{"_index":"notifications","_type":"_doc"}}'',
       ''{"time":1570000000000,"endpoint":"node1","path":"/3/0/1","value":"Hello"}'']\<close>
    by simp
  with bulk show ?thesis by blast
qed

text \<open>
  Claim C2. For a registrations array whose \<open>N\<close> items carry strings under \<^verbatim>\<open>ep\<close>,
  \<^verbatim>\<open>original-ep\<close> and \<^verbatim>\<open>ept\<close> and some value under \<^verbatim>\<open>resources\<close>, \<^verbatim>\<open>sendRegistrations\<close>
  posts a bulk text of exactly \<open>4N\<close> newline-terminated lines. Lines \<open>4i\<close> to \<open>4i + 3\<close> belong to
  item \<open>i\<close>, in this order: the action line for \<^verbatim>\<open>devices\<close>; the device document, in which
  \<^verbatim>\<open>resources\<close> is a JSON string holding the serialized resources; the action line for
  \<^verbatim>\<open>registrations\<close>; the document with \<^verbatim>\<open>endpoint\<close> the item's \<^verbatim>\<open>ep\<close> and \<^verbatim>\<open>value\<close> \<open>1\<close>.
\<close>

theorem sendRegistrations_bulk_payload:
  assumes valid: "\<forall>item \<in> set items. \<exists>ep oep ept.
      field item ''ep'' = Str ep \<and> field item ''original-ep'' = Str oep \<and>
      field item ''ept'' = Str ept \<and> field item ''resources'' \<noteq> Undefined"
  shows \<open>\<exists>bulk.
      registrations_bulk w (Arr items) = Inr bulk \<and>
      requests (sendRegistrations w (Arr items) done) =
        [\<lparr>req_httpMethod = ''POST'', req_requestPath = ''/_bulk'', req_payload = bulk\<rparr>] \<and>
      bulk = terminated (lines bulk) \<and>
      length (lines bulk) = 4 * length items \<and>
      (\<forall>i < length items. \<forall>ep oep ept.
         field (items ! i) ''ep'' = Str ep \<and> field (items ! i) ''original-ep'' = Str oep \<and>
         field (items ! i) ''ept'' = Str ept \<longrightarrow>
           (\<exists>resources.
              JSON_stringify (field (items ! i) ''resources'') = Some resources \<and>
              lines bulk ! (4 * i) = ''{"index":{"_index":"devices","_type":"_doc"}}'' \<and>
              lines bulk ! (4 * i + 1) =
                ''{"time":'' @ NumberToString (Date_now w (2 * i)) @
                '',"endpoint":'' @ QuoteJSONString ep @
                '',"original-ep":'' @ QuoteJSONString oep @
                '',"ept":'' @ QuoteJSONString ept @
                '',"resources":'' @ QuoteJSONString resources @ ''}'' \<and>
              lines bulk ! (4 * i + 2) = ''{"index":{"_index":"registrations","_type":"_doc"}}'' \<and>
              lines bulk ! (4 * i + 3) =
                ''{"time":'' @ NumberToString (Date_now w (2 * i + 1)) @
                '',"endpoint":'' @ QuoteJSONString ep @ '',"value":1}''))\<close>
proof -
  let ?L = "numbered (registration_lines w) items"
  have present: "\<not> nullish item" if "item \<in> set items" for item
  proof -
    from valid that obtain ep where "field item ''ep'' = Str ep" by blast
    then show ?thesis by (auto simp: nullish_def field_def)
  qed
  have four: "\<forall>i item. length (registration_lines w i item) = 4"
    by (simp add: registration_lines_def)
  have bulk: "registrations_bulk w (Arr items) = Inr (terminated ?L)"
    using present by (intro registrations_bulk_eq) blast
  have lines: "lines (terminated ?L) = ?L"
    by (rule lines_registrations)
  have sent: "requests (sendRegistrations w (Arr items) done) =
      [\<lparr>req_httpMethod = ''POST'', req_requestPath = ''/_bulk'', req_payload = terminated ?L\<rparr>]"
    by (simp add: sendRegistrations_def bulk requests_post_bulk)
  have len: "length ?L = 4 * length items"
    using four by (rule numbered_length)
  have each: \<open>\<exists>resources.
      JSON_stringify (field (items ! i) ''resources'') = Some resources \<and>
      ?L ! (4 * i) = ''{"index":{"_index":"devices","_type":"_doc"}}'' \<and>
      ?L ! (4 * i + 1) =
        ''{"time":'' @ NumberToString (Date_now w (2 * i)) @
        '',"endpoint":'' @ QuoteJSONString ep @
        '',"original-ep":'' @ QuoteJSONString oep @
        '',"ept":'' @ QuoteJSONString ept @
        '',"resources":'' @ QuoteJSONString resources @ ''}'' \<and>
      ?L ! (4 * i + 2) = ''{"index":{"_index":"registrations","_type":"_doc"}}'' \<and>
      ?L ! (4 * i + 3) =
        ''{"time":'' @ NumberToString (Date_now w (2 * i + 1)) @
        '',"endpoint":'' @ QuoteJSONString ep @ '',"value":1}''\<close>
    if "i < length items" and "field (items ! i) ''ep'' = Str ep"
      and "field (items ! i) ''original-ep'' = Str oep" and "field (items ! i) ''ept'' = Str ept"
    for i ep oep ept
  proof -
    from valid that(1) have "field (items ! i) ''resources'' \<noteq> Undefined"
      by (meson nth_mem)
    then obtain resources where r: "JSON_stringify (field (items ! i) ''resources'') = Some resources"
      using JSON_stringify_None [of "field (items ! i) ''resources''"] by auto
    have "?L ! (4 * i + 0) = registration_lines w i (items ! i) ! 0"
      using four that(1) by (intro numbered_nth) simp_all
    moreover have "?L ! (4 * i + 1) = registration_lines w i (items ! i) ! 1"
      using four that(1) by (intro numbered_nth) simp_all
    moreover have "?L ! (4 * i + 2) = registration_lines w i (items ! i) ! 2"
      using four that(1) by (intro numbered_nth) simp_all
    moreover have "?L ! (4 * i + 3) = registration_lines w i (items ! i) ! 3"
      using four that(1) by (intro numbered_nth) simp_all
    ultimately show ?thesis
      using that(2-4) r
      by (simp add: registration_lines_def device_text registration_text numeral_3_eq_3)
  qed
  show ?thesis
    using bulk sent lines len each by (intro exI [of _ "terminated ?L"]) simp
qed

theorem sendRegistrations_bulk_payload_witness:
  \<open>\<exists>bulk.
     registrations_bulk (sample_world ok_response)
       (Arr [Obj [(''ep'', Str ''node1''), (''original-ep'', Str ''dev1''), (''ept'', Str ''lamp''),
                  (''resources'', Arr [Obj [(''path'', Str ''/3/0/1''), (''obs'', Bool True)]])]])
       = Inr bulk \<and>
     lines bulk =
       [''{"index":{"_index":"devices","_type":"_doc"}}'',
        ''{"time":1570000000000,"endpoint":"node1","original-ep":"dev1","ept":"lamp",'' @
        ''"resources":"[{'' @ [CHR 0x5C] @ ''"path'' @ [CHR 0x5C] @ ''":'' @ [CHR 0x5C] @
        ''"/3/0/1'' @ [CHR 0x5C] @ ''",'' @ [CHR 0x5C] @ ''"obs'' @ [CHR 0x5C] @ ''":true}]"}'',
        ''{"index":{"_index":"registrations","_type":"_doc"}}'',
        ''{"time":1570000000001,"endpoint":"node1","value":1}'']\<close>
proof -
  let ?item = "Obj [(''ep'', Str ''node1''), (''original-ep'', Str ''dev1''), (''ept'', Str ''lamp''),
                    (''resources'', Arr [Obj [(''path'', Str ''/3/0/1''), (''obs'', Bool True)]])]"
  let ?w = "sample_world ok_response"
  have valid: "\<forall>item \<in> set [?item]. \<exists>ep oep ept.
      field item ''ep'' = Str ep \<and> field item ''original-ep'' = Str oep \<and>
      field item ''ept'' = Str ept \<and> field item ''resources'' \<noteq> Undefined"
    by (simp add: field_def)
  from sendRegistrations_bulk_payload [OF valid, where w = ?w]
  obtain bulk where bulk: "registrations_bulk ?w (Arr [?item]) = Inr bulk"
    and len: "length (lines bulk) = 4 * length [?item]"
    and each: \<open>\<forall>i < length [?item]. \<forall>ep oep ept.
         field ([?item] ! i) ''ep'' = Str ep \<and> field ([?item] ! i) ''original-ep'' = Str oep \<and>
         field ([?item] ! i) ''ept'' = Str ept \<longrightarrow>
           (\<exists>resources.
              JSON_stringify (field ([?item] ! i) ''resources'') = Some resources \<and>
              lines bulk ! (4 * i) = ''{"index":{"_index":"devices","_type":"_doc"}}'' \<and>
              lines bulk ! (4 * i + 1) =
                ''{"time":'' @ NumberToString (Date_now ?w (2 * i)) @
                '',"endpoint":'' @ QuoteJSONString ep @
                '',"original-ep":'' @ QuoteJSONString oep @
                '',"ept":'' @ QuoteJSONString ept @
                '',"resources":'' @ QuoteJSONString resources @ ''}'' \<and>
              lines bulk ! (4 * i + 2) = ''{"index":{"_index":"registrations","_type":"_doc"}}'' \<and>
              lines bulk ! (4 * i + 3) =
                ''{"time":'' @ NumberToString (Date_now ?w (2 * i + 1)) @
                '',"endpoint":'' @ QuoteJSONString ep @ '',"value":1}'')\<close>
    by blast
  from each [rule_format, of 0 "''node1''" "''dev1''" "''lamp''"]
  have l0: \<open>lines bulk ! 0 = ''{"index":{"_index":"devices","_type":"_doc"}}''\<close>
    and l1: \<open>lines bulk ! 1 =
        ''{"time":1570000000000,"endpoint":"node1","original-ep":"dev1","ept":"lamp",'' @
        ''"resources":"[{'' @ [CHR 0x5C] @ ''"path'' @ [CHR 0x5C] @ ''":'' @ [CHR 0x5C] @
        ''"/3/0/1'' @ [CHR 0x5C] @ ''",'' @ [CHR 0x5C] @ ''"obs'' @ [CHR 0x5C] @ ''":true}]"}''\<close>
    and l2: \<open>lines bulk ! Suc (Suc 0) = ''{"index":{"_index":"registrations","_type":"_doc"}}''\<close>
    and l3: \<open>lines bulk ! 3 = ''{"time":1570000000001,"endpoint":"node1","value":1}''\<close>
    by (simp_all add: field_def sample_world_def NumberToString_def numeral_digits digits_0 digits_1
        QuoteJSONString_def escape_def)
  from len have "length (lines bulk) = Suc (Suc (Suc (Suc 0)))" by simp
  then obtain a b c d where "lines bulk = [a, b, c, d]"
    by (auto simp: length_Suc_conv)
  with l0 l1 l2 l3 bulk show ?thesis by simp
qed

text \<open>
  Claim C3. For a \<^verbatim>\<open>registrations-expired\<close> array of \<open>N\<close> strings, \<^verbatim>\<open>sendExpirations\<close> posts a
  bulk text of exactly \<open>2N\<close> newline-terminated lines. Lines \<open>2i\<close> and \<open>2i + 1\<close> belong to item
  \<open>i\<close>: the action line for the index \<^verbatim>\<open>registrations\<close>, then the document with \<^verbatim>\<open>endpoint\<close>
  the string itself and \<^verbatim>\<open>value\<close> \<open>0\<close>.
\<close>

theorem sendExpirations_bulk_payload:
  assumes valid: "\<forall>item \<in> set items. \<exists>ep. item = Str ep"
  shows \<open>\<exists>bulk.
      expirations_bulk w (Arr items) = Inr bulk \<and>
      requests (sendExpirations w (Arr items) done) =
        [\<lparr>req_httpMethod = ''POST'', req_requestPath = ''/_bulk'', req_payload = bulk\<rparr>] \<and>
      bulk = terminated (lines bulk) \<and>
      length (lines bulk) = 2 * length items \<and>
      (\<forall>i < length items. \<forall>ep.
         items ! i = Str ep \<longrightarrow>
           lines bulk ! (2 * i) = ''{"index":{"_index":"registrations","_type":"_doc"}}'' \<and>
           lines bulk ! (2 * i + 1) =
             ''{"time":'' @ NumberToString (Date_now w i) @
             '',"endpoint":'' @ QuoteJSONString ep @ '',"value":0}'')\<close>
proof -
  let ?L = "numbered (expiration_lines w) items"
  have two: "\<forall>i item. length (expiration_lines w i item) = 2"
    by (simp add: expiration_lines_def)
  have bulk: "expirations_bulk w (Arr items) = Inr (terminated ?L)"
    by (rule expirations_bulk_eq)
  have lines: "lines (terminated ?L) = ?L"
    by (rule lines_expirations)
  have sent: "requests (sendExpirations w (Arr items) done) =
      [\<lparr>req_httpMethod = ''POST'', req_requestPath = ''/_bulk'', req_payload = terminated ?L\<rparr>]"
    by (simp add: sendExpirations_def bulk requests_post_bulk)
  have len: "length ?L = 2 * length items"
    using two by (rule numbered_length)
  have each: \<open>?L ! (2 * i) = ''{"index":{"_index":"registrations","_type":"_doc"}}'' \<and>
      ?L ! (2 * i + 1) =
        ''{"time":'' @ NumberToString (Date_now w i) @
        '',"endpoint":'' @ QuoteJSONString ep @ '',"value":0}''\<close>
    if "i < length items" and "items ! i = Str ep" for i ep
  proof -
    have "?L ! (2 * i + 0) = expiration_lines w i (items ! i) ! 0"
      using two that(1) by (intro numbered_nth) simp_all
    moreover have "?L ! (2 * i + 1) = expiration_lines w i (items ! i) ! 1"
      using two that(1) by (intro numbered_nth) simp_all
    ultimately show ?thesis
      using that(2) by (simp add: expiration_lines_def expiration_text)
  qed
  show ?thesis
    using bulk sent lines len each by (intro exI [of _ "terminated ?L"]) simp
qed

theorem sendExpirations_bulk_payload_witness:
  \<open>\<exists>bulk.
     expirations_bulk (sample_world ok_response) (Arr [Str ''node1'', Str ''node2'']) = Inr bulk \<and>
     lines bulk =
       [''{"index":{"_index":"registrations","_type":"_doc"}}'',
        ''{"time":1570000000000,"endpoint":"node1","value":0}'',
        ''{"index":{"_index":"registrations","_type":"_doc"}}'',
        ''{"time":1570000000001,"endpoint":"node2","value":0}'']\<close>
proof -
  let ?items = "[Str ''node1'', Str ''node2'']"
  let ?w = "sample_world ok_response"
  have valid: "\<forall>item \<in> set ?items. \<exists>ep. item = Str ep"
    by simp
  from sendExpirations_bulk_payload [OF valid, where w = ?w]
  obtain bulk where bulk: "expirations_bulk ?w (Arr ?items) = Inr bulk"
    and len: "length (lines bulk) = 2 * length ?items"
    and each: \<open>\<forall>i < length ?items. \<forall>ep.
         ?items ! i = Str ep \<longrightarrow>
           lines bulk ! (2 * i) = ''{"index":{"_index":"registrations","_type":"_doc"}}'' \<and>
           lines bulk ! (2 * i + 1) =
             ''{"time":'' @ NumberToString (Date_now ?w i) @
             '',"endpoint":'' @ QuoteJSONString ep @ '',"value":0}''\<close>
    by blast
  from each [rule_format, of 0 "''node1''"] each [rule_format, of 1 "''node2''"]
  have l0: \<open>lines bulk ! 0 = ''{"index":{"_index":"registrations","_type":"_doc"}}''\<close>
    and l1: \<open>lines bulk ! 1 = ''{"time":1570000000000,"endpoint":"node1","value":0}''\<close>
    and l2: \<open>lines bulk ! 2 = ''{"index":{"_index":"registrations","_type":"_doc"}}''\<close>
    and l3: \<open>lines bulk ! 3 = ''{"time":1570000000001,"endpoint":"node2","value":0}''\<close>
    by (simp_all add: sample_world_def NumberToString_def numeral_digits digits_0 digits_1
        QuoteJSONString_def escape_def)
  from len have "length (lines bulk) = Suc (Suc (Suc (Suc 0)))" by simp
  then obtain a b c d where "lines bulk = [a, b, c, d]"
    by (auto simp: length_Suc_conv)
  with l0 l1 l2 l3 bulk show ?thesis by simp
qed

section \<open>The handler and the request\<close>

lemma post_bulk_resolved:
  "sendRequest w \<lparr>req_httpMethod = ''POST'', req_requestPath = ''/_bulk'', req_payload = bulk\<rparr>
     = Resolved resolve \<Longrightarrow>
   post_bulk w bulk done =
     \<lparr>requests = [\<lparr>req_httpMethod = ''POST'', req_requestPath = ''/_bulk'', req_payload = bulk\<rparr>],
      completions = [done None (Str ''success'')], uncaught = None\<rparr>"
  by (simp add: post_bulk_def)

lemma post_bulk_rejected:
  "sendRequest w \<lparr>req_httpMethod = ''POST'', req_requestPath = ''/_bulk'', req_payload = bulk\<rparr>
     = Rejected reject \<Longrightarrow>
   post_bulk w bulk done =
     \<lparr>requests = [\<lparr>req_httpMethod = ''POST'', req_requestPath = ''/_bulk'', req_payload = bulk\<rparr>],
      completions = [done (Some reject) Undefined], uncaught = None\<rparr>"
  by (simp add: post_bulk_def)

lemma done_cb_success:
  \<open>done_cb None (Str ''success'') =
     \<lparr>statusCode = ''200'', response_body = Some ''"success"'',
      headers = [(''Content-Type'', ''application/json'')]\<rparr>\<close>
  by (simp add: done_cb_def QuoteJSONString_def escape_def)

lemma done_cb_failure:
  "done_cb (Some err) res =
     \<lparr>statusCode = ''400'', response_body = Some (message err),
      headers = [(''Content-Type'', ''application/json'')]\<rparr>"
  by (simp add: done_cb_def)

text \<open>
  What holds of \<^verbatim>\<open>sendRequest\<close> whatever the status code: a response whose body is empty or
  parses resolves the promise, and the promise is rejected exactly on a transport error.
\<close>

lemma sendRequest_resolves:
  assumes "handleRequest w p = Response r"
    and "concat (es_chunks r) = [] \<or> JSON_parse w (concat (es_chunks r)) \<noteq> None"
  shows "sendRequest w p =
     Resolved \<lparr>data_statusCode = es_statusCode r, data_statusMessage = es_statusMessage r,
               data_headers = es_headers r,
               data_body = (if concat (es_chunks r) = [] then None
                            else JSON_parse w (concat (es_chunks r)))\<rparr>"
  using assms by (auto simp: sendRequest_def Let_def)

lemma sendRequest_rejects_iff:
  "sendRequest w p = Rejected err \<longleftrightarrow> handleRequest w p = TransportError err"
  by (auto simp: sendRequest_def Let_def split: http_result.splits option.splits)

text \<open>
  Claim C4: a response resolves the promise whatever its status code, the senders then
  report \<^verbatim>\<open>'success'\<close>, and only a transport error rejects. This holds of every response
  whose body is empty or parses as JSON (\<open>sendRequest_resolves\<close>, \<open>sendRequest_rejects_iff\<close>,
  \<open>post_bulk_resolved\<close>, \<open>post_bulk_rejected\<close>). It fails on a response whose body is not JSON:
  the parser raises inside the \<^verbatim>\<open>end\<close> listener, the promise is never settled and
  \<^verbatim>\<open>done\<close> is never called. Here the engine answers \<^verbatim>\<open>502 Bad Gateway\<close> with the body
  \<^verbatim>\<open><html>\<close>.
\<close>

theorem sendRequest_unparseable_body:
  \<open>handleRequest (sample_world bad_gateway)
       \<lparr>req_httpMethod = ''POST'', req_requestPath = ''/_bulk'', req_payload = []\<rparr> = bad_gateway \<and>
   sendRequest (sample_world bad_gateway)
       \<lparr>req_httpMethod = ''POST'', req_requestPath = ''/_bulk'', req_payload = []\<rparr>
     = Uncaught SyntaxError \<and>
   sendNotifications (sample_world bad_gateway) (Arr []) done_cb =
     \<lparr>requests = [\<lparr>req_httpMethod = ''POST'', req_requestPath = ''/_bulk'', req_payload = []\<rparr>],
      completions = [], uncaught = Some SyntaxError\<rparr>\<close>
  by (simp add: sample_world_def bad_gateway_def sample_parse_def sendRequest_def
      sendNotifications_def notifications_bulk_def for_of_def post_bulk_def)

text \<open>
  Claim C10. Once the promise of the bulk request resolves, each of the three senders calls
  \<^verbatim>\<open>done(null, 'success')\<close>, whatever the value the promise resolved with; the handler's
  \<^verbatim>\<open>done\<close> turns that into status \<^verbatim>\<open>200\<close> with the body \<^verbatim>\<open>"success"\<close>, quotes included.
\<close>

theorem senders_report_success:
  assumes "sendRequest w \<lparr>req_httpMethod = ''POST'', req_requestPath = ''/_bulk'', req_payload = bulk\<rparr>
     = Resolved resolve"
  shows \<open>(notifications_bulk w v = Inr bulk \<longrightarrow>
       sendNotifications w v done =
         \<lparr>requests = [\<lparr>req_httpMethod = ''POST'', req_requestPath = ''/_bulk'', req_payload = bulk\<rparr>],
          completions = [done None (Str ''success'')], uncaught = None\<rparr>) \<and>
    (registrations_bulk w v = Inr bulk \<longrightarrow>
       sendRegistrations w v done =
         \<lparr>requests = [\<lparr>req_httpMethod = ''POST'', req_requestPath = ''/_bulk'', req_payload = bulk\<rparr>],
          completions = [done None (Str ''success'')], uncaught = None\<rparr>) \<and>
    (expirations_bulk w v = Inr bulk \<longrightarrow>
       sendExpirations w v done =
         \<lparr>requests = [\<lparr>req_httpMethod = ''POST'', req_requestPath = ''/_bulk'', req_payload = bulk\<rparr>],
          completions = [done None (Str ''success'')], uncaught = None\<rparr>) \<and>
    done_cb None (Str ''success'') =
      \<lparr>statusCode = ''200'', response_body = Some ''"success"'',
       headers = [(''Content-Type'', ''application/json'')]\<rparr>\<close>
proof -
  have "post_bulk w bulk done =
     \<lparr>requests = [\<lparr>req_httpMethod = ''POST'', req_requestPath = ''/_bulk'', req_payload = bulk\<rparr>],
      completions = [done None (Str ''success'')], uncaught = None\<rparr>"
    using assms by (rule post_bulk_resolved)
  then show ?thesis
    by (simp add: sendNotifications_def sendRegistrations_def sendExpirations_def done_cb_success)
qed

theorem senders_report_success_witness:
  \<open>sendRequest (sample_world forbidden)
       \<lparr>req_httpMethod = ''POST'', req_requestPath = ''/_bulk'', req_payload = []\<rparr> =
     Resolved \<lparr>data_statusCode = 403, data_statusMessage = ''Forbidden'', data_headers = [],
               data_body = Some (Obj [(''Message'', Str ''forbidden'')])\<rparr> \<and>
   sendExpirations (sample_world forbidden) (Arr []) done_cb =
     \<lparr>requests = [\<lparr>req_httpMethod = ''POST'', req_requestPath = ''/_bulk'', req_payload = []\<rparr>],
      completions =
        [\<lparr>statusCode = ''200'', response_body = Some ''"success"'',
          headers = [(''Content-Type'', ''application/json'')]\<rparr>],
      uncaught = None\<rparr>\<close>
proof -
  have resolved: \<open>sendRequest (sample_world forbidden)
       \<lparr>req_httpMethod = ''POST'', req_requestPath = ''/_bulk'', req_payload = []\<rparr> =
     Resolved \<lparr>data_statusCode = 403, data_statusMessage = ''Forbidden'', data_headers = [],
               data_body = Some (Obj [(''Message'', Str ''forbidden'')])\<rparr>\<close>
    by (simp add: sendRequest_def sample_world_def forbidden_def sample_parse_def)
  have built: "expirations_bulk (sample_world forbidden) (Arr []) = Inr []"
    by (simp add: expirations_bulk_def for_of_def)
  from senders_report_success [OF resolved, of "Arr []" done_cb] built resolved
  show ?thesis by simp
qed

text \<open>
  Claim C7. An event whose method is not \<^verbatim>\<open>PUT\<close> ends at once in \<^verbatim>\<open>done\<close> with an error
  naming the method: the callback receives status \<^verbatim>\<open>400\<close> with the message as body. No
  request is made, and the result depends on nothing but the method: neither the clock, nor
  the parser, nor the engine is consulted.
\<close>

theorem handler_unsupported_method:
  assumes "httpMethod event \<noteq> ''PUT''"
  shows \<open>handler w event =
     \<lparr>requests = [],
      completions =
        [\<lparr>statusCode = ''400'',
          response_body = Some (''Unsupported method "'' @ httpMethod event @ ''"''),
          headers = [(''Content-Type'', ''application/json'')]\<rparr>],
      uncaught = None\<rparr>\<close>
  using assms by (simp add: handler_def done_cb_def)

theorem handler_unsupported_method_witness:
  \<open>handler (sample_world ok_response) \<lparr>httpMethod = ''GET'', body = Some ''{}''\<rparr> =
     \<lparr>requests = [],
      completions =
        [\<lparr>statusCode = ''400'', response_body = Some ''Unsupported method "GET"'',
          headers = [(''Content-Type'', ''application/json'')]\<rparr>],
      uncaught = None\<rparr>\<close>
  using handler_unsupported_method
    [of "\<lparr>httpMethod = ''GET'', body = Some ''{}''\<rparr>" "sample_world ok_response"]
  by simp

text \<open>
  Claim C9. A \<^verbatim>\<open>PUT\<close> event without a \<^verbatim>\<open>body\<close> property falls through both tests: the handler
  returns, the callback is never called and no request is made.
\<close>

theorem handler_put_without_body:
  assumes "httpMethod event = ''PUT''" and "body event = None"
  shows "handler w event = \<lparr>requests = [], completions = [], uncaught = None\<rparr>"
  using assms by (simp add: handler_def)

theorem handler_put_without_body_witness:
  "handler (sample_world ok_response) \<lparr>httpMethod = ''PUT'', body = None\<rparr> =
     \<lparr>requests = [], completions = [], uncaught = None\<rparr>"
  using handler_put_without_body
    [of "\<lparr>httpMethod = ''PUT'', body = None\<rparr>" "sample_world ok_response"]
  by simp

lemma hasOwnProperty_plain:
  "\<not> nullish v \<Longrightarrow> own v ''hasOwnProperty'' = None \<Longrightarrow>
   hasOwnProperty v k = Inr (own v k \<noteq> None)"
  by (cases v) (auto simp: hasOwnProperty_def nullish_def)

lemma own_not_nullish: "own v k = Some x \<Longrightarrow> \<not> nullish v"
  by (cases v) (auto simp: nullish_def)

text \<open>
  The chain of tests on a body that is neither \<open>null\<close> nor \<open>undefined\<close> and has no own
  property \<^verbatim>\<open>hasOwnProperty\<close>, written out by the keys present.
\<close>

lemma classify_plain:
  assumes "\<not> nullish v" and "own v ''hasOwnProperty'' = None"
  shows "classify v =
     Inr (if own v ''notifications'' \<noteq> None then SendNotifications (field v ''notifications'')
          else if own v ''registrations'' \<noteq> None then SendRegistrations (field v ''registrations'')
          else if own v ''reg-updates'' \<noteq> None then SendRegistrations (field v ''reg-updates'')
          else if own v ''registrations-expired'' \<noteq> None
            then SendExpirations (field v ''registrations-expired'')
          else Acknowledge)"
  using assms
  by (simp add: classify_def hasOwnProperty_plain get_not_nullish)

text \<open>
  Claim C5, amended. A body with both \<^verbatim>\<open>registrations\<close> and \<^verbatim>\<open>reg-updates\<close>, without
  \<^verbatim>\<open>notifications\<close> and without an own property \<^verbatim>\<open>hasOwnProperty\<close>, goes to
  \<^verbatim>\<open>sendRegistrations\<close> with the value of \<^verbatim>\<open>registrations\<close> and nothing else. For two bodies on
  which the tests run (neither \<open>null\<close> nor \<open>undefined\<close>, no own \<^verbatim>\<open>hasOwnProperty\<close>), the
  function called depends only on which of the four keys are present.
\<close>

theorem classify_registrations_first:
  \<open>(own parsed ''hasOwnProperty'' = None \<and> own parsed ''notifications'' = None \<and>
     own parsed ''registrations'' = Some regs \<and> own parsed ''reg-updates'' = Some updates \<longrightarrow>
       classify parsed = Inr (SendRegistrations regs) \<and>
       (httpMethod event = ''PUT'' \<and> body event = Some content \<and> JSON_parse w content = Some parsed \<longrightarrow>
          handler w event = sendRegistrations w regs done_cb)) \<and>
    (\<not> nullish a \<and> \<not> nullish b \<and>
     own a ''hasOwnProperty'' = None \<and> own b ''hasOwnProperty'' = None \<and>
     (\<forall>k \<in> set [''notifications'', ''registrations'', ''reg-updates'', ''registrations-expired''].
        (own a k = None) = (own b k = None)) \<longrightarrow>
       (\<exists>ca cb. classify a = Inr ca \<and> classify b = Inr cb \<and> callee ca = callee cb))\<close>
proof (intro conjI impI)
  assume h: "own parsed ''hasOwnProperty'' = None \<and> own parsed ''notifications'' = None \<and>
     own parsed ''registrations'' = Some regs \<and> own parsed ''reg-updates'' = Some updates"
  then have "\<not> nullish parsed" using own_not_nullish by blast
  with h show c: "classify parsed = Inr (SendRegistrations regs)"
    by (simp add: classify_plain field_def)
  assume "httpMethod event = ''PUT'' \<and> body event = Some content \<and> JSON_parse w content = Some parsed"
  with c show "handler w event = sendRegistrations w regs done_cb"
    by (simp add: handler_def)
next
  assume h: "\<not> nullish a \<and> \<not> nullish b \<and>
     own a ''hasOwnProperty'' = None \<and> own b ''hasOwnProperty'' = None \<and>
     (\<forall>k \<in> set [''notifications'', ''registrations'', ''reg-updates'', ''registrations-expired''].
        (own a k = None) = (own b k = None))"
  then have "classify a = Inr (if own a ''notifications'' \<noteq> None then SendNotifications (field a ''notifications'')
          else if own a ''registrations'' \<noteq> None then SendRegistrations (field a ''registrations'')
          else if own a ''reg-updates'' \<noteq> None then SendRegistrations (field a ''reg-updates'')
          else if own a ''registrations-expired'' \<noteq> None
            then SendExpirations (field a ''registrations-expired'')
          else Acknowledge)"
    by (intro classify_plain) simp_all
  moreover from h have "classify b = Inr (if own b ''notifications'' \<noteq> None then SendNotifications (field b ''notifications'')
          else if own b ''registrations'' \<noteq> None then SendRegistrations (field b ''registrations'')
          else if own b ''reg-updates'' \<noteq> None then SendRegistrations (field b ''reg-updates'')
          else if own b ''registrations-expired'' \<noteq> None
            then SendExpirations (field b ''registrations-expired'')
          else Acknowledge)"
    by (intro classify_plain) simp_all
  moreover from h have "(own a ''notifications'' = None) = (own b ''notifications'' = None)"
    and "(own a ''registrations'' = None) = (own b ''registrations'' = None)"
    and "(own a ''reg-updates'' = None) = (own b ''reg-updates'' = None)"
    and "(own a ''registrations-expired'' = None) = (own b ''registrations-expired'' = None)"
    by simp_all
  ultimately show "\<exists>ca cb. classify a = Inr ca \<and> classify b = Inr cb \<and> callee ca = callee cb"
    by simp
qed

theorem classify_registrations_first_witness:
  \<open>handler (sample_world ok_response)
      \<lparr>httpMethod = ''PUT'',
       body = Some ''{"registrations":[{"ep":"node1"}],"reg-updates":[{"ep":"node2"}]}''\<rparr> =
     sendRegistrations (sample_world ok_response) (Arr [Obj [(''ep'', Str ''node1'')]]) done_cb \<and>
    (\<exists>ca cb.
       classify (Obj [(''registrations'', Arr []), (''reg-updates'', Arr [])]) = Inr ca \<and>
       classify (Obj [(''reg-updates'', Arr [Null]), (''registrations'', Num 3), (''x'', Null)])
         = Inr cb \<and>
       callee ca = callee cb)\<close>
proof -
  let ?parsed = "Obj [(''registrations'', Arr [Obj [(''ep'', Str ''node1'')]]),
                      (''reg-updates'', Arr [Obj [(''ep'', Str ''node2'')]])]"
  let ?event = \<open>\<lparr>httpMethod = ''PUT'',
       body = Some ''{"registrations":[{"ep":"node1"}],"reg-updates":[{"ep":"node2"}]}''\<rparr>\<close>
  let ?a = "Obj [(''registrations'', Arr []), (''reg-updates'', Arr [])]"
  let ?b = "Obj [(''reg-updates'', Arr [Null]), (''registrations'', Num 3), (''x'', Null)]"
  note inst = classify_registrations_first
    [where parsed = ?parsed and regs = "Arr [Obj [(''ep'', Str ''node1'')]]"
       and updates = "Arr [Obj [(''ep'', Str ''node2'')]]" and event = ?event
       and content = \<open>''{"registrations":[{"ep":"node1"}],"reg-updates":[{"ep":"node2"}]}''\<close>
       and w = "sample_world ok_response" and a = ?a and b = ?b]
  have parse: \<open>JSON_parse (sample_world ok_response)
      ''{"registrations":[{"ep":"node1"}],"reg-updates":[{"ep":"node2"}]}'' = Some ?parsed\<close>
    by (simp add: sample_world_def sample_parse_def)
  from inst parse show ?thesis
    by (simp add: nullish_def)
qed

text \<open>
  The claim as first stated fails on a body that has \<^verbatim>\<open>notifications\<close> as well: the first test
  of the chain wins, \<^verbatim>\<open>sendNotifications\<close> is called with the empty list, and the bulk text
  posted is empty although \<^verbatim>\<open>registrations\<close> holds an item.
\<close>

theorem classify_notifications_first_counterexample:
  \<open>JSON_parse (sample_world ok_response)
      ''{"notifications":[],"registrations":[{"ep":"node1"}],"reg-updates":[]}'' =
     Some (Obj [(''notifications'', Arr []),
                (''registrations'', Arr [Obj [(''ep'', Str ''node1'')]]),
                (''reg-updates'', Arr [])]) \<and>
   classify (Obj [(''notifications'', Arr []),
                  (''registrations'', Arr [Obj [(''ep'', Str ''node1'')]]),
                  (''reg-updates'', Arr [])]) = Inr (SendNotifications (Arr [])) \<and>
   handler (sample_world ok_response)
      \<lparr>httpMethod = ''PUT'',
       body = Some ''{"notifications":[],"registrations":[{"ep":"node1"}],"reg-updates":[]}''\<rparr> =
     \<lparr>requests = [\<lparr>req_httpMethod = ''POST'', req_requestPath = ''/_bulk'', req_payload = []\<rparr>],
      completions = [done_cb None (Str ''success'')], uncaught = None\<rparr>\<close>
  by (simp add: sample_world_def sample_parse_def classify_def hasOwnProperty_def get_def field_def
      handler_def sendNotifications_def notifications_bulk_def for_of_def post_bulk_def
      sendRequest_def ok_response_def)

text \<open>
  What \<^verbatim>\<open>handler\<close> does with a body of none of the four kinds, when the tests run: it calls
  \<^verbatim>\<open>done(null, 'success')\<close> and makes no request.
\<close>

lemma handler_acknowledges:
  assumes "httpMethod event = ''PUT''" and "body event = Some content"
    and "JSON_parse w content = Some parsed"
    and "\<not> nullish parsed" and "own parsed ''hasOwnProperty'' = None"
    and "own parsed ''notifications'' = None" and "own parsed ''registrations'' = None"
    and "own parsed ''reg-updates'' = None" and "own parsed ''registrations-expired'' = None"
  shows \<open>handler w event =
     \<lparr>requests = [],
      completions =
        [\<lparr>statusCode = ''200'', response_body = Some ''"success"'',
          headers = [(''Content-Type'', ''application/json'')]\<rparr>],
      uncaught = None\<rparr>\<close>
  using assms by (simp add: handler_def classify_plain done_cb_success)

text \<open>
  Claim C6: a \<^verbatim>\<open>PUT\<close> whose parsed body has none of the four keys is answered with success
  and no request is made. This holds when the tests run (\<open>handler_acknowledges\<close>). It fails
  on a body that has none of the four keys but has an own property \<^verbatim>\<open>hasOwnProperty\<close>, and
  on the body \<^verbatim>\<open>null\<close>: the first test raises a \<^verbatim>\<open>TypeError\<close>, which leaves the handler;
  \<^verbatim>\<open>done\<close> is not called.
\<close>

theorem handler_unknown_body_raises:
  \<open>JSON_parse (sample_world ok_response) ''{"hasOwnProperty":1}'' =
     Some (Obj [(''hasOwnProperty'', Num 1)]) \<and>
   own (Obj [(''hasOwnProperty'', Num 1)]) ''notifications'' = None \<and>
   own (Obj [(''hasOwnProperty'', Num 1)]) ''registrations'' = None \<and>
   own (Obj [(''hasOwnProperty'', Num 1)]) ''reg-updates'' = None \<and>
   own (Obj [(''hasOwnProperty'', Num 1)]) ''registrations-expired'' = None \<and>
   handler (sample_world ok_response)
      \<lparr>httpMethod = ''PUT'', body = Some ''{"hasOwnProperty":1}''\<rparr> =
     \<lparr>requests = [], completions = [], uncaught = Some TypeError\<rparr> \<and>
   JSON_parse (sample_world ok_response) ''null'' = Some Null \<and>
   handler (sample_world ok_response) \<lparr>httpMethod = ''PUT'', body = Some ''null''\<rparr> =
     \<lparr>requests = [], completions = [], uncaught = Some TypeError\<rparr>\<close>
  by (simp add: sample_world_def sample_parse_def handler_def classify_def hasOwnProperty_def
      throws_def)

section \<open>Missing fields\<close>

lemma SerializeJSONObject_append:
  "SerializeJSONObject (ps @ qs) = SerializeJSONObject ps @ SerializeJSONObject qs"
  by (induction ps) (auto split: option.splits)

lemma JSON_stringify_skips_undefined:
  "JSON_stringify (Obj (ps @ (k, Undefined) # qs)) = JSON_stringify (Obj (ps @ qs))"
  by (simp add: SerializeJSONObject_append)

lemma field_absent: "own item k = None \<Longrightarrow> field item k = Undefined"
  by (simp add: field_def)

text \<open>
  Claim C8, amended. The notification builder goes through a batch in which every item
  carries a string \<^verbatim>\<open>payload\<close>, and the registration builder through a batch in which no item
  is \<open>null\<close> or \<open>undefined\<close>, whatever other fields are missing: every item gets its lines,
  in order. A missing field is \<open>undefined\<close> in the record of its item, and
  \<^verbatim>\<open>JSON.stringify\<close> leaves a property whose value is \<open>undefined\<close> out of the document.
\<close>

theorem builders_with_missing_fields:
  \<open>((\<forall>item \<in> set items. \<exists>payload. field item ''payload'' = Str payload) \<longrightarrow>
       (\<exists>bulk.
          notifications_bulk w (Arr items) = Inr bulk \<and>
          length (lines bulk) = 2 * length items \<and>
          (\<forall>i < length items. \<forall>payload.
             field (items ! i) ''payload'' = Str payload \<longrightarrow>
               JSON_stringify
                 (Obj [(''time'', Num (Date_now w i)),
                       (''endpoint'', field (items ! i) ''ep''),
                       (''path'', field (items ! i) ''path''),
                       (''value'', Str (toString_ascii (base64_decode payload)))])
                 = Some (lines bulk ! (2 * i + 1))))) \<and>
    ((\<forall>item \<in> set items. \<not> nullish item) \<longrightarrow>
       (\<exists>bulk.
          registrations_bulk w (Arr items) = Inr bulk \<and>
          length (lines bulk) = 4 * length items \<and>
          (\<forall>i < length items.
             JSON_stringify
               (Obj [(''time'', Num (Date_now w (2 * i))),
                     (''endpoint'', field (items ! i) ''ep''),
                     (''original-ep'', field (items ! i) ''original-ep''),
                     (''ept'', field (items ! i) ''ept''),
                     (''resources'',
                        (case JSON_stringify (field (items ! i) ''resources'') of
                           None \<Rightarrow> Undefined
                         | Some text \<Rightarrow> Str text))])
               = Some (lines bulk ! (4 * i + 1)) \<and>
             JSON_stringify
               (Obj [(''time'', Num (Date_now w (2 * i + 1))),
                     (''endpoint'', field (items ! i) ''ep''),
                     (''value'', Num 1)])
               = Some (lines bulk ! (4 * i + 3))))) \<and>
    (own item k = None \<longrightarrow> field item k = Undefined) \<and>
    JSON_stringify (Obj (ps @ (k, Undefined) # qs)) = JSON_stringify (Obj (ps @ qs))\<close>
proof (intro conjI impI)
  let ?L = "numbered (notification_lines w) items"
  assume payloads: "\<forall>item \<in> set items. \<exists>payload. field item ''payload'' = Str payload"
  have two: "\<forall>i item. length (notification_lines w i item) = 2"
    by (simp add: notification_lines_def)
  have bulk: "notifications_bulk w (Arr items) = Inr (terminated ?L)"
    using payloads by (rule notifications_bulk_eq)
  have len: "length ?L = 2 * length items"
    using two by (rule numbered_length)
  have each: "JSON_stringify
        (Obj [(''time'', Num (Date_now w i)),
              (''endpoint'', field (items ! i) ''ep''),
              (''path'', field (items ! i) ''path''),
              (''value'', Str (toString_ascii (base64_decode payload)))])
        = Some (?L ! (2 * i + 1))"
    if "i < length items" and "field (items ! i) ''payload'' = Str payload" for i payload
  proof -
    have "?L ! (2 * i + 1) = notification_lines w i (items ! i) ! 1"
      using two that(1) by (intro numbered_nth) simp_all
    then show ?thesis
      using that(2) by (simp add: notification_lines_def JSON_stringify_Obj del: JSON_stringify.simps)
  qed
  show "\<exists>bulk.
          notifications_bulk w (Arr items) = Inr bulk \<and>
          length (lines bulk) = 2 * length items \<and>
          (\<forall>i < length items. \<forall>payload.
             field (items ! i) ''payload'' = Str payload \<longrightarrow>
               JSON_stringify
                 (Obj [(''time'', Num (Date_now w i)),
                       (''endpoint'', field (items ! i) ''ep''),
                       (''path'', field (items ! i) ''path''),
                       (''value'', Str (toString_ascii (base64_decode payload)))])
                 = Some (lines bulk ! (2 * i + 1)))"
    using bulk len each
    by (intro exI [of _ "terminated ?L"]) (simp add: lines_notifications del: JSON_stringify.simps)
next
  let ?L = "numbered (registration_lines w) items"
  assume present: "\<forall>item \<in> set items. \<not> nullish item"
  have four: "\<forall>i item. length (registration_lines w i item) = 4"
    by (simp add: registration_lines_def)
  have bulk: "registrations_bulk w (Arr items) = Inr (terminated ?L)"
    using present by (rule registrations_bulk_eq)
  have len: "length ?L = 4 * length items"
    using four by (rule numbered_length)
  have each: "JSON_stringify
        (Obj [(''time'', Num (Date_now w (2 * i))),
              (''endpoint'', field (items ! i) ''ep''),
              (''original-ep'', field (items ! i) ''original-ep''),
              (''ept'', field (items ! i) ''ept''),
              (''resources'',
                 (case JSON_stringify (field (items ! i) ''resources'') of
                    None \<Rightarrow> Undefined
                  | Some text \<Rightarrow> Str text))])
        = Some (?L ! (4 * i + 1)) \<and>
      JSON_stringify
        (Obj [(''time'', Num (Date_now w (2 * i + 1))),
              (''endpoint'', field (items ! i) ''ep''),
              (''value'', Num 1)])
        = Some (?L ! (4 * i + 3))"
    if "i < length items" for i
  proof -
    have "?L ! (4 * i + 1) = registration_lines w i (items ! i) ! 1"
      using four that by (intro numbered_nth) simp_all
    moreover have "?L ! (4 * i + 3) = registration_lines w i (items ! i) ! 3"
      using four that by (intro numbered_nth) simp_all
    ultimately show ?thesis
      by (simp add: registration_lines_def JSON_stringify_Obj numeral_3_eq_3
          del: JSON_stringify.simps)
  qed
  show "\<exists>bulk.
          registrations_bulk w (Arr items) = Inr bulk \<and>
          length (lines bulk) = 4 * length items \<and>
          (\<forall>i < length items.
             JSON_stringify
               (Obj [(''time'', Num (Date_now w (2 * i))),
                     (''endpoint'', field (items ! i) ''ep''),
                     (''original-ep'', field (items ! i) ''original-ep''),
                     (''ept'', field (items ! i) ''ept''),
                     (''resources'',
                        (case JSON_stringify (field (items ! i) ''resources'') of
                           None \<Rightarrow> Undefined
                         | Some text \<Rightarrow> Str text))])
               = Some (lines bulk ! (4 * i + 1)) \<and>
             JSON_stringify
               (Obj [(''time'', Num (Date_now w (2 * i + 1))),
                     (''endpoint'', field (items ! i) ''ep''),
                     (''value'', Num 1)])
               = Some (lines bulk ! (4 * i + 3)))"
    using bulk len each
    by (intro exI [of _ "terminated ?L"]) (simp add: lines_registrations del: JSON_stringify.simps)
next
  assume "own item k = None"
  then show "field item k = Undefined" by (rule field_absent)
next
  show "JSON_stringify (Obj (ps @ (k, Undefined) # qs)) = JSON_stringify (Obj (ps @ qs))"
    by (rule JSON_stringify_skips_undefined)
qed

theorem builders_with_missing_fields_witness:
  \<open>\<exists>bulk.
     notifications_bulk (sample_world ok_response)
       (Arr [Obj [(''payload'', Str ''SGVsbG8='')],
             Obj [(''ep'', Str ''node1''), (''path'', Str ''/3/0/1''), (''payload'', Str ''Cg=='')]])
       = Inr bulk \<and>
     length (lines bulk) = 4 \<and>
     lines bulk ! 1 = ''{"time":1570000000000,"value":"Hello"}'' \<and>
     lines bulk ! 3 =
       ''{"time":1570000000001,"endpoint":"node1","path":"/3/0/1","value":"'' @ [CHR 0x5C] @ ''n"}''\<close>
proof -
  let ?items = "[Obj [(''payload'', Str ''SGVsbG8='')],
      Obj [(''ep'', Str ''node1''), (''path'', Str ''/3/0/1''), (''payload'', Str ''Cg=='')]]"
  let ?w = "sample_world ok_response"
  have payloads: "\<forall>item \<in> set ?items. \<exists>payload. field item ''payload'' = Str payload"
    by (simp add: field_def)
  from builders_with_missing_fields [where items = ?items and w = ?w] payloads
  obtain bulk where bulk: "notifications_bulk ?w (Arr ?items) = Inr bulk"
    and len: "length (lines bulk) = 2 * length ?items"
    and each: "\<forall>i < length ?items. \<forall>payload.
             field (?items ! i) ''payload'' = Str payload \<longrightarrow>
               JSON_stringify
                 (Obj [(''time'', Num (Date_now ?w i)),
                       (''endpoint'', field (?items ! i) ''ep''),
                       (''path'', field (?items ! i) ''path''),
                       (''value'', Str (toString_ascii (base64_decode payload)))])
                 = Some (lines bulk ! (2 * i + 1))"
    by blast
  from each [rule_format, of 0 "''SGVsbG8=''"] each [rule_format, of 1 "''Cg==''"]
  have \<open>lines bulk ! 1 = ''{"time":1570000000000,"value":"Hello"}''\<close>
    and \<open>lines bulk ! 3 =
       ''{"time":1570000000001,"endpoint":"node1","path":"/3/0/1","value":"'' @ [CHR 0x5C] @ ''n"}''\<close>
    by (simp_all add: field_def sample_world_def NumberToString_def numeral_digits digits_0 digits_1
        QuoteJSONString_def escape_def toString_ascii_def base64_decode_def unbase64_def
        base64_alphabet_def sextet_def List.map_filter_def)
  with bulk len show ?thesis by simp
qed

text \<open>
  The claim as first stated fails on a notification without \<^verbatim>\<open>payload\<close>:
  \<^verbatim>\<open>Buffer.from(undefined, 'base64')\<close> raises, the second item is never reached and nothing is
  posted.
\<close>

theorem notification_without_payload_counterexample:
  \<open>notifications_bulk (sample_world ok_response)
     (Arr [Obj [(''ep'', Str ''node1''), (''path'', Str ''/3/0/1'')],
           Obj [(''ep'', Str ''node2''), (''path'', Str ''/3/0/1''), (''payload'', Str ''SGVsbG8='')]])
     = Inl TypeError \<and>
   sendNotifications (sample_world ok_response)
     (Arr [Obj [(''ep'', Str ''node1''), (''path'', Str ''/3/0/1'')],
           Obj [(''ep'', Str ''node2''), (''path'', Str ''/3/0/1''), (''payload'', Str ''SGVsbG8='')]])
     done_cb
     = \<lparr>requests = [], completions = [], uncaught = Some TypeError\<rparr>\<close>
  by (simp add: notifications_bulk_def for_of_def get_def field_def Buffer_from_def
      sendNotifications_def throws_def)

end
